theory Spec2Isabelle
  imports Main "HOL-Library.Sublist" "HOL-Library.AList"
begin

section \<open>Python values used by the process manager\<close>

text \<open>
  A Python \<open>str\<close> is a sequence of code points; \<open>len\<close> and slicing count code
  points, while \<open>encode('utf-8')\<close> produces between one and four bytes for each of
  them and raises \<open>UnicodeEncodeError\<close> on a lone surrogate. A \<open>bytes\<close> value is
  a sequence of numbers below 256.
\<close>

type_synonym pystr = "nat list"
type_synonym bytes = "nat list"

definition S :: "string \<Rightarrow> pystr" where
  "S s = map of_char s"

text \<open>
  The one exception the model lets escape from the codec. It carries the text that
  \<open>str(e)\<close> gives for it.
\<close>

datatype exn = UnicodeEncodeError pystr

definition utf8_encode_cp :: "nat \<Rightarrow> bytes option" where
  "utf8_encode_cp c =
     (if c < 0x80 then Some [c]
      else if c < 0x800 then Some [0xC0 + c div 64, 0x80 + c mod 64]
      else if 0xD800 \<le> c \<and> c \<le> 0xDFFF then None
      else if c < 0x10000 then
        Some [0xE0 + c div 4096, 0x80 + (c div 64) mod 64, 0x80 + c mod 64]
      else if c < 0x110000 then
        Some [0xF0 + c div 262144, 0x80 + (c div 4096) mod 64,
              0x80 + (c div 64) mod 64, 0x80 + c mod 64]
      else None)"

fun utf8_encode :: "pystr \<Rightarrow> bytes option" where
  "utf8_encode [] = Some []"
| "utf8_encode (c # cs) =
     (case utf8_encode_cp c of
        None \<Rightarrow> None
      | Some b \<Rightarrow> (case utf8_encode cs of None \<Rightarrow> None | Some bs \<Rightarrow> Some (b @ bs)))"

text \<open>\<open>str(n)\<close> for an integer, as the f-strings of the source print it.\<close>

fun str_nat :: "nat \<Rightarrow> pystr" where
  "str_nat n = (if n < 10 then [48 + n] else str_nat (n div 10) @ [48 + n mod 10])"

declare str_nat.simps [simp del]

definition str_int :: "int \<Rightarrow> pystr" where
  "str_int i = (if i < 0 then 45 # str_nat (nat (- i)) else str_nat (nat i))"

text \<open>
  The text of the \<open>UnicodeEncodeError\<close> that \<open>encode('utf-8')\<close> raises on a string:
  the codec reports the first run of code points it cannot encode, as
  \<open>'utf-8' codec can't encode character '\ud800' in position 3: surrogates not allowed\<close>
  for a run of one and as
  \<open>'utf-8' codec can't encode characters in position 3-5: surrogates not allowed\<close>
  for a longer one. (A number from 0x110000 on is not a code point of any Python
  string; the model treats it as it treats a surrogate.)
\<close>

definition hex_digit :: "nat \<Rightarrow> nat" where
  "hex_digit d = (if d < 10 then 48 + d else 87 + d)"

definition hex4 :: "nat \<Rightarrow> pystr" where
  "hex4 c = [hex_digit (c div 4096 mod 16), hex_digit (c div 256 mod 16),
             hex_digit (c div 16 mod 16), hex_digit (c mod 16)]"

definition encode_error_str :: "pystr \<Rightarrow> pystr" where
  "encode_error_str s =
     (let start = length (takeWhile (\<lambda>c. utf8_encode_cp c \<noteq> None) s);
          run = length (takeWhile (\<lambda>c. utf8_encode_cp c = None) (drop start s))
      in if run = 1 then
           [39] @ S ''utf-8'' @ [39] @ S '' codec can'' @ [39] @ S ''t encode character ''
           @ [39, 92] @ S ''u'' @ hex4 (hd (drop start s)) @ [39] @ S '' in position ''
           @ str_nat start @ S '': surrogates not allowed''
         else
           [39] @ S ''utf-8'' @ [39] @ S '' codec can'' @ [39] @ S ''t encode characters''
           @ S '' in position '' @ str_nat start @ [45] @ str_nat (start + run - 1)
           @ S '': surrogates not allowed'')"

definition encode_error :: "pystr \<Rightarrow> exn" where
  "encode_error s = UnicodeEncodeError (encode_error_str s)"

text \<open>Python's \<open>xs[i:]\<close>: a negative start counts from the end and is clamped at 0.\<close>

definition slice_from :: "int \<Rightarrow> 'a list \<Rightarrow> 'a list" where
  "slice_from i xs =
     (if i < 0 then drop (nat (int (length xs) + i)) xs else drop (nat i) xs)"

text \<open>The code points that \<open>str.strip()\<close> removes from both ends.\<close>

definition py_isspace :: "nat \<Rightarrow> bool" where
  "py_isspace c \<longleftrightarrow>
     (0x09 \<le> c \<and> c \<le> 0x0D) \<or> (0x1C \<le> c \<and> c \<le> 0x20) \<or> c = 0x85 \<or> c = 0xA0 \<or>
     c = 0x1680 \<or> (0x2000 \<le> c \<and> c \<le> 0x200A) \<or> c = 0x2028 \<or> c = 0x2029 \<or>
     c = 0x202F \<or> c = 0x205F \<or> c = 0x3000"

definition py_strip :: "pystr \<Rightarrow> pystr" where
  "py_strip s = rev (dropWhile py_isspace (rev (dropWhile py_isspace s)))"

text \<open>
  The standard-library functions the buffer calls and the repository does not define:
  \<open>re.compile\<close> (which yields a compiled pattern, raises \<open>re.error\<close>, or raises
  something else), the compiled pattern's \<open>search\<close>, \<open>fnmatch.fnmatch\<close>, and
  \<open>bytes.decode('utf-8', errors='replace')\<close>. They are parameters of the model.
\<close>

datatype 'r compile_result = Compiled 'r | Re_error pystr | Other_error pystr

record 'r pylib =
  re_compile :: "pystr \<Rightarrow> 'r compile_result"
  re_search :: "'r \<Rightarrow> pystr \<Rightarrow> bool"
  fnmatch :: "pystr \<Rightarrow> pystr \<Rightarrow> bool"
  decode_replace :: "bytes \<Rightarrow> pystr"

section \<open>ring\_buffer.py: RingBuffer\<close>

record ring_buffer =
  max_size_bytes :: int
  buffer :: "pystr list"
  current_size :: int

definition RingBuffer :: "int \<Rightarrow> ring_buffer" where
  "RingBuffer n = \<lparr>max_size_bytes = n, buffer = [], current_size = 0\<rparr>"

text \<open>
  The eviction loop of \<open>append\<close> (here \<open>append_rb\<close>): while \<open>current_size + data_size > max_size_bytes\<close>
  and the deque is not empty, pop the oldest entry and subtract its encoded length. The
  result carries the exception, if \<open>encode\<close> raised, with the deque and counter as the
  raise leaves them (the entry popped, the counter not yet decremented).
\<close>

fun evict :: "int \<Rightarrow> int \<Rightarrow> pystr list \<Rightarrow> int \<Rightarrow> exn option \<times> pystr list \<times> int" where
  "evict cap data_size [] cur = (None, [], cur)"
| "evict cap data_size (removed # rest) cur =
     (if cur + data_size > cap then
        (case utf8_encode removed of
           None \<Rightarrow> (Some (encode_error removed), rest, cur)
         | Some b \<Rightarrow> evict cap data_size rest (cur - int (length b)))
      else (None, removed # rest, cur))"

definition append_rb :: "pystr \<Rightarrow> ring_buffer \<Rightarrow> exn option \<times> ring_buffer" where
  "append_rb data rb =
     (case utf8_encode data of
        None \<Rightarrow> (Some (encode_error data), rb)
      | Some enc \<Rightarrow>
          let data_size = int (length enc);
              oversize = (data_size > max_size_bytes rb);
              data1 = (if oversize then slice_from (- max_size_bytes rb) data else data);
              data_size1 = (if oversize then max_size_bytes rb else data_size)
          in (case evict (max_size_bytes rb) data_size1 (buffer rb) (current_size rb) of
                (Some e, buf, cur) \<Rightarrow> (Some e, rb\<lparr>buffer := buf, current_size := cur\<rparr>)
              | (None, buf, cur) \<Rightarrow>
                  (None, rb\<lparr>buffer := buf @ [data1], current_size := cur + data_size1\<rparr>)))"

definition get_lines :: "int \<Rightarrow> ring_buffer \<Rightarrow> pystr list" where
  "get_lines max_lines rb =
     (if max_lines \<le> 0 then buffer rb else slice_from (- max_lines) (buffer rb))"

text \<open>
  The three searches. The pattern argument is \<open>None\<close> or a string; a failure is
  returned in band, as a one-element list whose entry starts with \<open>ERROR:\<close>.
\<close>

definition search_string :: "pystr option \<Rightarrow> int \<Rightarrow> ring_buffer \<Rightarrow> pystr list" where
  "search_string search_str max_lines rb =
     (case search_str of
        None \<Rightarrow> [S ''ERROR: Search string cannot be None'']
      | Some pat \<Rightarrow>
          let matches = filter (\<lambda>line. sublist pat line) (buffer rb)
          in if max_lines \<le> 0 then matches else slice_from (- max_lines) matches)"

definition no_search_attr :: pystr where
  "no_search_attr = [39] @ S ''NoneType'' @ [39] @ S '' object has no attribute ''
                    @ [39] @ S ''search'' @ [39]"

definition search_regex :: "'r pylib \<Rightarrow> pystr option \<Rightarrow> int \<Rightarrow> ring_buffer \<Rightarrow> pystr list" where
  "search_regex lib regex_pattern max_lines rb =
     (case regex_pattern of
        None \<Rightarrow>
          \<comment> \<open>not a str: nothing is compiled, and \<open>None.search\<close> raises on the first line\<close>
          (if buffer rb = [] then []
           else [S ''ERROR: Error during regex search: '' @ no_search_attr])
      | Some pat \<Rightarrow>
          (case re_compile lib pat of
             Re_error msg \<Rightarrow> [S ''ERROR: Invalid regex pattern: '' @ msg]
           | Other_error msg \<Rightarrow> [S ''ERROR: Unexpected error compiling regex: '' @ msg]
           | Compiled r \<Rightarrow>
               let matches = filter (\<lambda>line. re_search lib r line) (buffer rb)
               in if max_lines \<le> 0 then matches else slice_from (- max_lines) matches))"

definition search_wildcard :: "'r pylib \<Rightarrow> pystr option \<Rightarrow> int \<Rightarrow> ring_buffer \<Rightarrow> pystr list" where
  "search_wildcard lib wildcard_pattern max_lines rb =
     (case wildcard_pattern of
        None \<Rightarrow> [S ''ERROR: Empty wildcard pattern provided'']
      | Some pat \<Rightarrow>
          if pat = [] then [S ''ERROR: Empty wildcard pattern provided'']
          else
            let matches = filter (\<lambda>line. fnmatch lib (py_strip line) pat) (buffer rb)
            in if max_lines \<le> 0 then matches else slice_from (- max_lines) matches)"

definition clear :: "ring_buffer \<Rightarrow> ring_buffer" where
  "clear rb = rb\<lparr>buffer := [], current_size := 0\<rparr>"

definition get_size :: "ring_buffer \<Rightarrow> int" where
  "get_size rb = current_size rb"

section \<open>process\_handler.py: ProcessHandler\<close>

text \<open>
  The lifecycle state is a string in the source: \<open>"initialized"\<close>, \<open>"running"\<close>,
  \<open>"completed"\<close>, \<open>"error"\<close> or \<open>"error: Exit code N"\<close>. The datatype has one
  constructor for each, and \<open>state_str\<close> gives the string back.
\<close>

datatype pstate = Initialized | Running | Completed | Error | Error_exit int

definition state_str :: "pstate \<Rightarrow> pystr" where
  "state_str st =
     (case st of
        Initialized \<Rightarrow> S ''initialized''
      | Running \<Rightarrow> S ''running''
      | Completed \<Rightarrow> S ''completed''
      | Error \<Rightarrow> S ''error''
      | Error_exit c \<Rightarrow> S ''error: Exit code '' @ str_int c)"

text \<open>
  The operating-system process behind a \<open>subprocess.Popen\<close> object. \<open>returncode\<close>
  is the exit status once it has been observed. What the system will do is an input of
  the model: \<open>poll_script\<close> lists what the coming calls of \<open>poll()\<close> on a process
  not yet seen to exit will find (\<open>None\<close> while it is alive), \<open>kill_raises\<close> is the
  message of the exception that \<open>kill()\<close> raises, if it does, and \<open>write_raises\<close> the
  one that writing to the input pipe raises. \<open>kill_calls\<close> counts the calls of
  \<open>kill()\<close>, that is the termination signals asked for.
\<close>

record pipe =
  closed :: bool
  written :: bytes
  write_raises :: "pystr option"

record process =
  proc_pid :: int
  returncode :: "int option"
  poll_script :: "int option list"
  kill_raises :: "pystr option"
  kill_calls :: nat
  stdin :: "pipe option"

definition poll :: "process \<Rightarrow> int option \<times> process" where
  "poll p =
     (case returncode p of
        Some c \<Rightarrow> (Some c, p)
      | None \<Rightarrow>
          (case poll_script p of
             [] \<Rightarrow> (None, p)
           | r # rs \<Rightarrow> (r, p\<lparr>returncode := r, poll_script := rs\<rparr>)))"

text \<open>
  An entry of \<open>io_queue\<close>: a byte read from one of the two streams, or the error marker
  a reader leaves when reading raised.
\<close>

datatype qitem = Data pystr nat | Err_marker pystr

text \<open>
  The handler. \<open>current_line\<close> and \<open>processor_alive\<close> are the local accumulator and
  the liveness of the thread that runs \<open>_process_output\<close>. \<open>state_log\<close> is not a field
  of the source: it records every value assigned to \<open>self.state\<close>, in order, so that
  "never enters Running" can be stated.
\<close>

record handler =
  command :: "pystr list"
  process :: "process option"
  pid :: "int option"
  state :: pstate
  error :: "pystr option"
  rbuffer :: ring_buffer
  io_queue :: "qitem list"
  stop_event :: bool
  current_line :: bytes
  processor_alive :: bool
  state_log :: "pstate list"

definition ProcessHandler :: "pystr list \<Rightarrow> handler" where
  "ProcessHandler cmd =
     \<lparr>command = cmd, process = None, pid = None, state = Initialized, error = None,
      rbuffer = RingBuffer (10 * 1024 * 1024), io_queue = [], stop_event = False,
      current_line = [], processor_alive = False, state_log = []\<rparr>"

definition set_state :: "pstate \<Rightarrow> handler \<Rightarrow> handler" where
  "set_state st h = h\<lparr>state := st, state_log := state_log h @ [st]\<rparr>"

text \<open>
  \<open>start\<close>. What \<open>subprocess.Popen\<close> does is an input: it yields a process or raises
  one of the exceptions the source tells apart, or another one, which the outer handler
  catches. \<open>thread_fault\<close> is the message of an exception raised while the three threads
  are started, if any; the outer handler catches it as well.
\<close>

datatype spawn_result =
    Spawned process
  | File_not_found pystr
  | Index_error pystr
  | Permission_error pystr
  | Subprocess_error pystr
  | Other_exception pystr

definition spawn_failed :: "pystr \<Rightarrow> pystr \<Rightarrow> handler \<Rightarrow> (pystr \<times> int option) \<times> handler" where
  "spawn_failed label msg h =
     (let error_msg = label @ msg
      in ((S ''failed: '' @ error_msg, None), (set_state Error h)\<lparr>error := Some error_msg\<rparr>))"

definition start :: "spawn_result \<Rightarrow> pystr option \<Rightarrow> handler \<Rightarrow> (pystr \<times> int option) \<times> handler" where
  "start popen thread_fault h =
     (if process h \<noteq> None then ((S ''failed: Process already started'', None), h)
      else if command h = [] then ((S ''failed: Command list cannot be empty'', None), h)
      else
        (case popen of
           File_not_found msg \<Rightarrow> spawn_failed (S ''Command not found: '') msg h
         | Index_error msg \<Rightarrow> spawn_failed (S ''Invalid command format: '') msg h
         | Permission_error msg \<Rightarrow> spawn_failed (S ''Permission denied: '') msg h
         | Subprocess_error msg \<Rightarrow> spawn_failed (S ''Subprocess error: '') msg h
         | Other_exception msg \<Rightarrow>
             ((S ''failed: '' @ msg, None), (set_state Error h)\<lparr>error := Some msg\<rparr>)
         | Spawned p \<Rightarrow>
             (let h1 = (set_state Running (h\<lparr>process := Some p, pid := Some (proc_pid p)\<rparr>))
                         \<lparr>stop_event := False\<rparr>
              in (case thread_fault of
                    Some msg \<Rightarrow>
                      ((S ''failed: '' @ msg, None), (set_state Error h1)\<lparr>error := Some msg\<rparr>)
                  | None \<Rightarrow>
                      ((S ''success'', Some (proc_pid p)), h1\<lparr>processor_alive := True\<rparr>)))))"

definition str_exn :: "exn \<Rightarrow> pystr" where
  "str_exn e = (case e of UnicodeEncodeError msg \<Rightarrow> msg)"

text \<open>
  Committing the accumulated bytes as a line. When \<open>append\<close> raises, the handler around
  the whole loop of \<open>_process_output\<close> records the error and the thread ends.
\<close>

definition commit_line :: "'r pylib \<Rightarrow> handler \<Rightarrow> handler" where
  "commit_line lib h =
     (case append_rb (decode_replace lib (current_line h)) (rbuffer h) of
        (None, rb) \<Rightarrow> h\<lparr>rbuffer := rb, current_line := []\<rparr>
      | (Some e, rb) \<Rightarrow>
          (set_state Error (h\<lparr>rbuffer := rb\<rparr>))
            \<lparr>error := Some (str_exn e), processor_alive := False\<rparr>)"

text \<open>The state a finished process leaves, as both the processor and \<open>get_status\<close> set it.\<close>

definition exit_state :: "int \<Rightarrow> pstate" where
  "exit_state exit_code = (if exit_code = 0 then Completed else Error_exit exit_code)"

text \<open>
  One turn of the loop of \<open>_process_output\<close>. With an entry in the queue, \<open>get\<close>
  returns it. With none, \<open>get\<close> times out: the accumulator is flushed, the process is
  polled, and the thread leaves the loop when the process has exited and the queue is
  empty. The readers run meanwhile: \<open>arrived\<close> is what they have put in the queue
  between the timeout and the end of the turn.
\<close>

definition process_output_step :: "'r pylib \<Rightarrow> qitem list \<Rightarrow> handler \<Rightarrow> handler" where
  "process_output_step lib arrived h =
     (if \<not> processor_alive h then h
      else if stop_event h then h\<lparr>processor_alive := False\<rparr>
      else
        (case io_queue h of
           Err_marker msg # rest \<Rightarrow> (set_state Error (h\<lparr>io_queue := rest\<rparr>))\<lparr>error := Some msg\<rparr>
         | Data source b # rest \<Rightarrow>
             (let h1 = h\<lparr>io_queue := rest, current_line := current_line h @ [b]\<rparr>
              in if b = 10 then commit_line lib h1 else h1)
         | [] \<Rightarrow>
             (let h1 = (if current_line h \<noteq> [] then commit_line lib h else h)
              in if \<not> processor_alive h1 then h1
                 else
                   (case process h1 of
                      None \<Rightarrow> h1\<lparr>io_queue := arrived\<rparr>
                    | Some p \<Rightarrow>
                        (case poll p of
                           (None, p1) \<Rightarrow> h1\<lparr>process := Some p1, io_queue := arrived\<rparr>
                         | (Some exit_code, p1) \<Rightarrow>
                             (let h2 = h1\<lparr>process := Some p1, io_queue := arrived\<rparr>;
                                  h3 = (if state h2 = Running
                                        then set_state (exit_state exit_code) h2 else h2)
                              in if io_queue h3 = [] then h3\<lparr>processor_alive := False\<rparr>
                                 else h3))))))"

record status =
  st_command :: "pystr list"
  st_state :: pystr
  last_five_lines :: pystr

definition get_status :: "handler \<Rightarrow> status \<times> handler" where
  "get_status h =
     (let h1 =
        (case process h of
           None \<Rightarrow> h
         | Some p \<Rightarrow>
             if state h = Running then
               (case poll p of
                  (None, p1) \<Rightarrow> h\<lparr>process := Some p1\<rparr>
                | (Some exit_code, p1) \<Rightarrow> set_state (exit_state exit_code) (h\<lparr>process := Some p1\<rparr>))
             else h);
          last_output = concat (get_lines 5 (rbuffer h1));
          last_output1 =
            (if length last_output > 300 then slice_from (- 300) last_output else last_output)
      in (\<lparr>st_command = command h1, st_state = state_str (state h1),
           last_five_lines = last_output1\<rparr>, h1))"

text \<open>
  \<open>kill\<close>. The loop that waits for the exit polls and sleeps until the timeout has
  passed; \<open>n\<close> is the number of turns the timeout leaves room for.
\<close>

fun wait_loop :: "nat \<Rightarrow> process \<Rightarrow> process" where
  "wait_loop 0 p = p"
| "wait_loop (Suc n) p =
     (case poll p of (Some c, p1) \<Rightarrow> p1 | (None, p1) \<Rightarrow> wait_loop n p1)"

definition kill :: "nat \<Rightarrow> handler \<Rightarrow> pystr \<times> handler" where
  "kill n h =
     (case process h of
        None \<Rightarrow> (S ''failed: No process to kill'', h)
      | Some p \<Rightarrow>
          if state h \<noteq> Running \<and> state h \<noteq> Error then (S ''failed: Process not running'', h)
          else
            (let p1 = p\<lparr>kill_calls := kill_calls p + 1\<rparr>
             in (case kill_raises p of
                   Some msg \<Rightarrow> (S ''failed: '' @ msg, h\<lparr>process := Some p1\<rparr>)
                 | None \<Rightarrow>
                     (case poll (wait_loop n p1) of
                        (None, p2) \<Rightarrow>
                          (S ''failed: Process did not terminate within timeout'',
                           h\<lparr>process := Some p2\<rparr>)
                      | (Some c, p2) \<Rightarrow>
                          (S ''success'',
                           (set_state Completed (h\<lparr>process := Some p2\<rparr>))\<lparr>stop_event := True\<rparr>)))))"

definition cleanup :: "handler \<Rightarrow> handler" where
  "cleanup h =
     (case process h of
        None \<Rightarrow> h\<lparr>stop_event := True\<rparr>
      | Some p \<Rightarrow>
          (case poll p of
             (r, p1) \<Rightarrow>
               (let p2 = (if r = None then p1\<lparr>kill_calls := kill_calls p1 + 1\<rparr> else p1);
                    p3 = (case stdin p2 of
                            None \<Rightarrow> p2
                          | Some pp \<Rightarrow> p2\<lparr>stdin := Some (pp\<lparr>closed := True\<rparr>)\<rparr>)
                in h\<lparr>process := Some p3, stop_event := True\<rparr>)))"

definition get_output_lines :: "int \<Rightarrow> handler \<Rightarrow> pystr list" where
  "get_output_lines max_lines h = get_lines max_lines (rbuffer h)"

definition invalid_search_type :: "pystr \<Rightarrow> pystr" where
  "invalid_search_type search_type =
     S ''ERROR: Invalid search type: '' @ search_type @ S ''. Must be '' @
     [39] @ S ''string'' @ [39] @ S '', '' @ [39] @ S ''regex'' @ [39] @ S '', or '' @
     [39] @ S ''wildcard'' @ [39]"

definition search_output :: "'r pylib \<Rightarrow> pystr \<Rightarrow> pystr option \<Rightarrow> int \<Rightarrow> handler \<Rightarrow> pystr list" where
  "search_output lib search_type pattern max_lines h =
     (if search_type = S ''string'' then search_string pattern max_lines (rbuffer h)
      else if search_type = S ''regex'' then search_regex lib pattern max_lines (rbuffer h)
      else if search_type = S ''wildcard'' then search_wildcard lib pattern max_lines (rbuffer h)
      else [invalid_search_type search_type])"

text \<open>
  Writing to the input pipe and flushing it: the pipe is unbuffered, a closed one raises
  \<open>ValueError\<close> with the text "I/O operation on closed file", and the system may make
  the write raise.
\<close>

definition write_stdin :: "bytes \<Rightarrow> pipe \<Rightarrow> pystr + pipe" where
  "write_stdin bs pp =
     (if closed pp then Inl (S ''I/O operation on closed file'')
      else (case write_raises pp of
              Some msg \<Rightarrow> Inl msg
            | None \<Rightarrow> Inr (pp\<lparr>written := written pp @ bs\<rparr>)))"

definition send_chars :: "pystr \<Rightarrow> handler \<Rightarrow> pystr \<times> handler" where
  "send_chars chars h =
     (case process h of
        None \<Rightarrow> (S ''failed: No process running'', h)
      | Some p \<Rightarrow>
          if state h \<noteq> Running then (S ''failed: Process not in running state'', h)
          else
            (case stdin p of
               None \<Rightarrow> (S ''failed: Process stdin not available'', h)
             | Some pp \<Rightarrow>
                 (case utf8_encode chars of
                    None \<Rightarrow> (S ''failed: '' @ str_exn (encode_error chars), h)
                  | Some bs \<Rightarrow>
                      (case write_stdin bs pp of
                         Inl msg \<Rightarrow> (S ''failed: '' @ msg, h)
                       | Inr pp1 \<Rightarrow> (S ''success'', h\<lparr>process := Some (p\<lparr>stdin := Some pp1\<rparr>)\<rparr>)))))"

definition send_line :: "pystr \<Rightarrow> handler \<Rightarrow> pystr \<times> handler" where
  "send_line line h =
     (case process h of
        None \<Rightarrow> (S ''failed: No process running'', h)
      | Some p \<Rightarrow>
          if state h \<noteq> Running then (S ''failed: Process not in running state'', h)
          else
            (case stdin p of
               None \<Rightarrow> (S ''failed: Process stdin not available'', h)
             | Some pp \<Rightarrow>
                 (let line1 = (if line \<noteq> [] \<and> last line = 10 then line else line @ [10])
                  in (case utf8_encode line1 of
                        None \<Rightarrow> (S ''failed: '' @ str_exn (encode_error line1), h)
                      | Some bs \<Rightarrow>
                          (case write_stdin bs pp of
                             Inl msg \<Rightarrow> (S ''failed: '' @ msg, h)
                           | Inr pp1 \<Rightarrow>
                               (S ''success'', h\<lparr>process := Some (p\<lparr>stdin := Some pp1\<rparr>)\<rparr>))))))"

section \<open>process\_manager.py: ProcessManager\<close>

text \<open>
  \<open>processes\<close> is the dictionary from process id to handler, in insertion order:
  \<open>AList.update\<close> replaces the value of a key that is present where it stands and adds
  a new key at the end, as an assignment to a Python dictionary does. The handlers are
  objects the dictionary refers to; an operation that changes a handler writes the
  changed handler back under its key.

  \<open>lock_depth\<close> is the number of times the calling thread holds the registry lock (an
  \<open>RLock\<close>). \<open>calls\<close> is not a field of the source: it records each call into a
  handler, with the process id, the operation and the lock depth at the moment of the
  call.
\<close>

datatype session_op =
  Op_get_status | Op_kill | Op_cleanup | Op_get_output_lines | Op_search_output
  | Op_send_line | Op_send_chars

record manager =
  processes :: "(int \<times> handler) list"
  lock_depth :: nat
  calls :: "(int \<times> session_op \<times> nat) list"

definition ProcessManager :: manager where
  "ProcessManager = \<lparr>processes = [], lock_depth = 0, calls = []\<rparr>"

definition with_lock :: "(manager \<Rightarrow> 'a \<times> manager) \<Rightarrow> manager \<Rightarrow> 'a \<times> manager" where
  "with_lock body m =
     (case body (m\<lparr>lock_depth := lock_depth m + 1\<rparr>) of
        (r, m1) \<Rightarrow> (r, m1\<lparr>lock_depth := lock_depth m1 - 1\<rparr>))"

definition note_call :: "int \<Rightarrow> session_op \<Rightarrow> manager \<Rightarrow> manager" where
  "note_call i opn m = m\<lparr>calls := calls m @ [(i, opn, lock_depth m)]\<rparr>"

definition put_handler :: "int \<Rightarrow> handler \<Rightarrow> manager \<Rightarrow> manager" where
  "put_handler i h m = m\<lparr>processes := AList.update i h (processes m)\<rparr>"

definition process_start ::
  "spawn_result \<Rightarrow> pystr option \<Rightarrow> pystr list \<Rightarrow> manager \<Rightarrow> (pystr \<times> int option) \<times> manager" where
  "process_start popen thread_fault cmd m =
     (if cmd = [] then ((S ''failed: Command list cannot be empty'', None), m)
      else
        (case start popen thread_fault (ProcessHandler cmd) of
           ((status, pid_opt), handler) \<Rightarrow>
             (case pid_opt of
                Some i \<Rightarrow>
                  if sublist (S ''success'') status
                  then with_lock (\<lambda>m1. ((status, pid_opt), put_handler i handler m1)) m
                  else ((status, pid_opt), m)
              | None \<Rightarrow> ((status, pid_opt), m))))"

definition process_status :: "int \<Rightarrow> manager \<Rightarrow> status \<times> manager" where
  "process_status i m =
     with_lock (\<lambda>m1.
       case map_of (processes m1) i of
         None \<Rightarrow>
           (\<lparr>st_command = [], st_state = S ''error: Process not found'', last_five_lines = []\<rparr>,
            m1)
       | Some handler \<Rightarrow>
           (case get_status handler of
              (st, h1) \<Rightarrow> (st, put_handler i h1 (note_call i Op_get_status m1)))) m"

definition process_kill :: "nat \<Rightarrow> int \<Rightarrow> manager \<Rightarrow> pystr \<times> manager" where
  "process_kill n i m =
     with_lock (\<lambda>m1.
       case map_of (processes m1) i of
         None \<Rightarrow> (S ''failed: Process not found'', m1)
       | Some handler \<Rightarrow>
           (case kill n handler of
              (result, h1) \<Rightarrow> (result, put_handler i h1 (note_call i Op_kill m1)))) m"

definition process_remove :: "nat \<Rightarrow> int \<Rightarrow> manager \<Rightarrow> pystr \<times> manager" where
  "process_remove n i m =
     with_lock (\<lambda>m1.
       case map_of (processes m1) i of
         None \<Rightarrow> (S ''failed: Process not found'', m1)
       | Some handler \<Rightarrow>
           (let m2 = (if state handler = Running then note_call i Op_kill m1 else m1);
                h1 = (if state handler = Running then snd (kill n handler) else handler);
                m3 = note_call i Op_cleanup m2;
                h2 = cleanup h1
            in (S ''success'', m3\<lparr>processes := AList.delete i (processes m3)\<rparr>))) m"

fun process_list_loop ::
  "(int \<times> handler) list \<Rightarrow> (int \<times> pystr list \<times> pystr) list \<Rightarrow> manager
   \<Rightarrow> (int \<times> pystr list \<times> pystr) list \<times> manager" where
  "process_list_loop [] result m = (result, m)"
| "process_list_loop ((i, handler) # rest) result m =
     (case get_status handler of
        (st, h1) \<Rightarrow>
          process_list_loop rest (result @ [(i, st_command st, st_state st)])
            (put_handler i h1 (note_call i Op_get_status m)))"

definition process_list :: "manager \<Rightarrow> (int \<times> pystr list \<times> pystr) list \<times> manager" where
  "process_list m = with_lock (\<lambda>m1. process_list_loop (processes m1) [] m1) m"

fun join :: "pystr \<Rightarrow> pystr list \<Rightarrow> pystr" where
  "join sep [] = []"
| "join sep [x] = x"
| "join sep (x # y # ys) = x @ sep @ join sep (y # ys)"

definition pid_error :: "int \<Rightarrow> pystr \<Rightarrow> pystr" where
  "pid_error i msg = S ''PID '' @ str_int i @ S '': '' @ msg"

text \<open>
  \<open>all_kill\<close>: the loop runs over a snapshot of the dictionary's items, taken under the
  lock, and the lock is held until the loop ends. A kill changes only the session it is
  called on and the keys of a dictionary are distinct, so the session the snapshot holds
  for an id is still the current one when its turn comes.
\<close>

fun all_kill_loop ::
  "nat \<Rightarrow> (int \<times> handler) list \<Rightarrow> pystr list \<Rightarrow> manager \<Rightarrow> pystr list \<times> manager" where
  "all_kill_loop n [] errors m = (errors, m)"
| "all_kill_loop n ((i, handler) # rest) errors m =
     (if state handler = Running then
        (case kill n handler of
           (result, h1) \<Rightarrow>
             all_kill_loop n rest
               (if sublist (S ''failed'') result then errors @ [pid_error i result] else errors)
               (put_handler i h1 (note_call i Op_kill m)))
      else all_kill_loop n rest errors m)"

definition all_kill :: "nat \<Rightarrow> manager \<Rightarrow> pystr \<times> manager" where
  "all_kill n m =
     (case with_lock (\<lambda>m1. all_kill_loop n (processes m1) [] m1) m of
        (errors, m2) \<Rightarrow>
          (if errors \<noteq> [] then S ''failed: '' @ join (S ''; '') errors else S ''success'', m2))"

fun all_remove_loop :: "(int \<times> handler) list \<Rightarrow> manager \<Rightarrow> manager" where
  "all_remove_loop [] m = m"
| "all_remove_loop ((i, handler) # rest) m =
     (if state handler \<noteq> Running then
        (let m1 = note_call i Op_cleanup m
         in all_remove_loop rest (m1\<lparr>processes := AList.delete i (processes m1)\<rparr>))
      else all_remove_loop rest m)"

definition all_remove :: "manager \<Rightarrow> pystr \<times> manager" where
  "all_remove m =
     (case with_lock (\<lambda>m1. ((), all_remove_loop (processes m1) m1)) m of
        (u, m2) \<Rightarrow> (S ''success'', m2))"

definition is_error_result :: "pystr list \<Rightarrow> bool" where
  "is_error_result matches \<longleftrightarrow> matches \<noteq> [] \<and> prefix (S ''ERROR:'') (hd matches)"

definition valid_search_type :: "pystr \<Rightarrow> bool" where
  "valid_search_type search_type \<longleftrightarrow>
     search_type = S ''string'' \<or> search_type = S ''regex'' \<or> search_type = S ''wildcard''"

definition empty_pattern :: "pystr option \<Rightarrow> bool" where
  "empty_pattern pattern \<longleftrightarrow> pattern = None \<or> pattern = Some []"

fun all_search_loop ::
  "'r pylib \<Rightarrow> pystr \<Rightarrow> pystr option \<Rightarrow> int \<Rightarrow> (int \<times> handler) list
   \<Rightarrow> (int \<times> pystr list) list \<Rightarrow> pystr list \<Rightarrow> manager
   \<Rightarrow> ((int \<times> pystr list) list \<times> pystr list) \<times> manager" where
  "all_search_loop lib search_type pattern k [] result errors m = ((result, errors), m)"
| "all_search_loop lib search_type pattern k ((i, handler) # rest) result errors m =
     (let matches = search_output lib search_type pattern k handler;
          m1 = note_call i Op_search_output m
      in if is_error_result matches
         then all_search_loop lib search_type pattern k rest result
                (errors @ [pid_error i (hd matches)]) m1
         else if matches \<noteq> []
         then all_search_loop lib search_type pattern k rest (result @ [(i, matches)]) errors m1
         else all_search_loop lib search_type pattern k rest result errors m1)"

definition all_search ::
  "'r pylib \<Rightarrow> pystr \<Rightarrow> pystr option \<Rightarrow> int \<Rightarrow> manager \<Rightarrow> (int \<times> pystr list) list \<times> manager" where
  "all_search lib search_type pattern max_lines_per_pid m =
     (if \<not> valid_search_type search_type then ([(- 1, [invalid_search_type search_type])], m)
      else if empty_pattern pattern
      then ([(- 1, [S ''ERROR: Search pattern cannot be empty''])], m)
      else
        (case with_lock
                (\<lambda>m1. all_search_loop lib search_type pattern max_lines_per_pid
                         (processes m1) [] [] m1) m of
           ((result, errors), m2) \<Rightarrow>
             (if errors \<noteq> []
              then result @ [(- 1, [S ''ERROR: '' @ join (S ''; '') errors])]
              else result, m2)))"

definition not_found_lines :: "int \<Rightarrow> pystr list" where
  "not_found_lines i = [S ''ERROR: Process not found: pid='' @ str_int i]"

definition stdio_get_lines :: "int \<Rightarrow> int \<Rightarrow> manager \<Rightarrow> pystr list \<times> manager" where
  "stdio_get_lines i max_lines m =
     with_lock (\<lambda>m1.
       case map_of (processes m1) i of
         None \<Rightarrow> (not_found_lines i, m1)
       | Some handler \<Rightarrow>
           (get_output_lines max_lines handler, note_call i Op_get_output_lines m1)) m"

definition stdio_search_lines ::
  "'r pylib \<Rightarrow> int \<Rightarrow> pystr \<Rightarrow> pystr option \<Rightarrow> int \<Rightarrow> manager \<Rightarrow> pystr list \<times> manager" where
  "stdio_search_lines lib i search_type pattern max_lines m =
     with_lock (\<lambda>m1.
       case map_of (processes m1) i of
         None \<Rightarrow> (not_found_lines i, m1)
       | Some handler \<Rightarrow>
           if \<not> valid_search_type search_type then ([invalid_search_type search_type], m1)
           else if empty_pattern pattern then ([S ''ERROR: Search pattern cannot be empty''], m1)
           else (search_output lib search_type pattern max_lines handler,
                 note_call i Op_search_output m1)) m"

definition stdio_send_line :: "int \<Rightarrow> pystr \<Rightarrow> manager \<Rightarrow> pystr \<times> manager" where
  "stdio_send_line i line m =
     with_lock (\<lambda>m1.
       case map_of (processes m1) i of
         None \<Rightarrow> (S ''failed: Process not found'', m1)
       | Some handler \<Rightarrow>
           (case send_line line handler of
              (result, h1) \<Rightarrow> (result, put_handler i h1 (note_call i Op_send_line m1)))) m"

definition stdio_send_chars :: "int \<Rightarrow> pystr \<Rightarrow> manager \<Rightarrow> pystr \<times> manager" where
  "stdio_send_chars i chars m =
     with_lock (\<lambda>m1.
       case map_of (processes m1) i of
         None \<Rightarrow> (S ''failed: Process not found'', m1)
       | Some handler \<Rightarrow>
           (case send_chars chars handler of
              (result, h1) \<Rightarrow> (result, put_handler i h1 (note_call i Op_send_chars m1)))) m"

section \<open>Notions the properties are stated with\<close>

text \<open>
  The UTF-8 length of an entry (0 for one that cannot be encoded) and the number of bytes
  the retained entries of a buffer really take.
\<close>

definition utf8_size :: "pystr \<Rightarrow> int" where
  "utf8_size s = (case utf8_encode s of Some b \<Rightarrow> int (length b) | None \<Rightarrow> 0)"

definition stored_bytes :: "ring_buffer \<Rightarrow> int" where
  "stored_bytes rb = sum_list (map utf8_size (buffer rb))"

text \<open>
  The invariant of the buffer, and a sequence of appends: the counter equals the bytes
  really stored, every retained entry can be encoded, and the counter is within the
  capacity.
\<close>

definition rb_inv :: "ring_buffer \<Rightarrow> bool" where
  "rb_inv rb \<longleftrightarrow>
     current_size rb = stored_bytes rb \<and> list_all (\<lambda>l. utf8_encode l \<noteq> None) (buffer rb)
     \<and> current_size rb \<le> max_size_bytes rb"

definition appends :: "pystr list \<Rightarrow> ring_buffer \<Rightarrow> ring_buffer" where
  "appends ds rb = fold (\<lambda>d b. snd (append_rb d b)) ds rb"

text \<open>
  The idle turn of the processor commits the accumulator before it looks at the process;
  this says that the commit, if there is one, does not raise.
\<close>

definition flush_ok :: "'r pylib \<Rightarrow> handler \<Rightarrow> bool" where
  "flush_ok lib h \<longleftrightarrow>
     current_line h = [] \<or> fst (append_rb (decode_replace lib (current_line h)) (rbuffer h)) = None"

text \<open>
  Example sessions. The library of the examples rejects every regular expression, matches
  no wildcard and decodes ASCII bytes as themselves. \<open>running_session\<close> is a started
  \<open>sleep\<close> whose process is alive at the first poll and is then found killed (status
  -9); \<open>exited_session\<close> is a started \<open>echo\<close> that the first poll finds exited with
  status 0; \<open>pending_session\<close> is the same with a byte still in the queue;
  \<open>faulted_session\<close> is the running session after a reader has reported a read error.
\<close>

definition example_pipe :: pipe where
  "example_pipe = \<lparr>closed = False, written = [], write_raises = None\<rparr>"

definition example_process :: process where
  "example_process =
     \<lparr>proc_pid = 4242, returncode = None, poll_script = [None, Some (- 9)],
      kill_raises = None, kill_calls = 0, stdin = Some example_pipe\<rparr>"

definition example_lib :: "unit pylib" where
  "example_lib =
     \<lparr>re_compile = (\<lambda>pat. Re_error (S ''bad pattern'')), re_search = (\<lambda>r line. False),
      fnmatch = (\<lambda>name pat. False),
      decode_replace = map (\<lambda>b. if b < 128 then b else 0xFFFD)\<rparr>"

definition running_session :: handler where
  "running_session =
     snd (start (Spawned example_process) None (ProcessHandler [S ''sleep'', S ''10'']))"

definition exited_session :: handler where
  "exited_session =
     snd (start (Spawned (example_process\<lparr>poll_script := [Some 0]\<rparr>)) None
            (ProcessHandler [S ''echo'', S ''Hello, World!'']))"

definition pending_session :: handler where
  "pending_session = exited_session\<lparr>io_queue := [Data (S ''stdout'') 0x48]\<rparr>"

definition faulted_session :: handler where
  "faulted_session =
     process_output_step example_lib []
       (running_session\<lparr>io_queue := [Err_marker (S ''read failed'')]\<rparr>)"

text \<open>The registry after \<open>process_start\<close> of the \<open>sleep\<close> of the examples.\<close>

definition example_manager :: manager where
  "example_manager =
     snd (process_start (Spawned example_process) None [S ''sleep'', S ''10''] ProcessManager)"

text \<open>
  What \<open>all_kill\<close> is expected to do with one entry of the registry: a Running session
  is replaced by the session as \<open>kill\<close> leaves it, any other stays. A kill fails when
  the session was Running and \<open>kill\<close> did not return "success"; its entry in the
  aggregated failure is "PID i: " followed by what \<open>kill\<close> returned.
\<close>

definition killed :: "nat \<Rightarrow> int \<times> handler \<Rightarrow> int \<times> handler" where
  "killed n ih = (fst ih, if state (snd ih) = Running then snd (kill n (snd ih)) else snd ih)"

definition kill_fails :: "nat \<Rightarrow> int \<times> handler \<Rightarrow> bool" where
  "kill_fails n ih \<longleftrightarrow> state (snd ih) = Running \<and> fst (kill n (snd ih)) \<noteq> S ''success''"

definition kill_error :: "nat \<Rightarrow> int \<times> handler \<Rightarrow> pystr" where
  "kill_error n ih = pid_error (fst ih) (fst (kill n (snd ih)))"

text \<open>
  A registry with two running sessions: the first registered never exits, the second is
  the \<open>sleep\<close> of the examples.
\<close>

definition stubborn_process :: process where
  "stubborn_process = example_process\<lparr>proc_pid := 4243, poll_script := []\<rparr>"

definition fleet_manager :: manager where
  "fleet_manager =
     snd (process_start (Spawned example_process) None [S ''sleep'', S ''10'']
           (snd (process_start (Spawned stubborn_process) None [S ''sleep'', S ''99'']
                  ProcessManager)))"

text \<open>
  Searching. \<open>search_fails\<close> collects the cases in which the source returns a failure
  instead of lines: a type that is none of the three, \<open>None\<close> in string mode, a
  pattern that does not compile in regex mode (or \<open>None\<close> over a buffer that is not
  empty), an empty or missing pattern in wildcard mode. \<open>is_match\<close> is what the
  specification calls a match: the line contains the pattern (exact), the compiled
  pattern is found somewhere in the line (regex), the trimmed line matches the wildcard
  (glob). \<open>last_n\<close> keeps the last \<open>n\<close> entries, all of them when \<open>n\<close> is not
  positive.
\<close>

definition search_fails :: "'r pylib \<Rightarrow> pystr \<Rightarrow> pystr option \<Rightarrow> ring_buffer \<Rightarrow> bool" where
  "search_fails lib search_type pattern rb \<longleftrightarrow>
     (if search_type = S ''string'' then pattern = None
      else if search_type = S ''regex'' then
        (case pattern of
           None \<Rightarrow> buffer rb \<noteq> []
         | Some pat \<Rightarrow> (case re_compile lib pat of Compiled r \<Rightarrow> False | Re_error msg \<Rightarrow> True
                        | Other_error msg \<Rightarrow> True))
      else if search_type = S ''wildcard'' then empty_pattern pattern
      else True)"

definition is_match :: "'r pylib \<Rightarrow> pystr \<Rightarrow> pystr option \<Rightarrow> pystr \<Rightarrow> bool" where
  "is_match lib search_type pattern line \<longleftrightarrow>
     (case pattern of
        None \<Rightarrow> False
      | Some pat \<Rightarrow>
          if search_type = S ''string'' then sublist pat line
          else if search_type = S ''regex'' then
            (case re_compile lib pat of Compiled r \<Rightarrow> re_search lib r line | Re_error msg \<Rightarrow> False
             | Other_error msg \<Rightarrow> False)
          else if search_type = S ''wildcard'' then fnmatch lib (py_strip line) pat
          else False)"

definition last_n :: "int \<Rightarrow> 'a list \<Rightarrow> 'a list" where
  "last_n n xs = (if n \<le> 0 then xs else drop (length xs - nat n) xs)"

text \<open>
  Two more example sessions: one that has committed the lines "Alpha" and "Beta", and one
  whose process printed the line "starting up" and then, without a line terminator, a
  line that reads like a failure of the wildcard search; and a registry that holds the
  latter.
\<close>

definition lines_session :: handler where
  "lines_session =
     exited_session\<lparr>rbuffer :=
       snd (append_rb (S ''Beta'' @ [10])
             (snd (append_rb (S ''Alpha'' @ [10]) (rbuffer exited_session))))\<rparr>"

definition error_line_session :: handler where
  "error_line_session =
     exited_session\<lparr>rbuffer :=
       snd (append_rb (S ''ERROR: Empty wildcard pattern provided'')
             (snd (append_rb (S ''starting up'' @ [10]) (rbuffer exited_session))))\<rparr>"

definition error_line_manager :: manager where
  "error_line_manager = put_handler 4242 error_line_session ProcessManager"

text \<open>
  What \<open>all_search\<close> is expected to return: \<open>found\<close> pairs each session with the
  result of its search, \<open>hits\<close> keeps the results that are not classified as failures
  and are not empty, \<open>failures\<close> turns those classified as failures into the entries
  of the aggregated error.
\<close>

definition found ::
  "'r pylib \<Rightarrow> pystr \<Rightarrow> pystr option \<Rightarrow> int \<Rightarrow> (int \<times> handler) list \<Rightarrow> (int \<times> pystr list) list" where
  "found lib ty pat k ps = map (\<lambda>ih. (fst ih, search_output lib ty pat k (snd ih))) ps"

definition hits :: "(int \<times> pystr list) list \<Rightarrow> (int \<times> pystr list) list" where
  "hits fs = filter (\<lambda>im. \<not> is_error_result (snd im) \<and> snd im \<noteq> []) fs"

definition failures :: "(int \<times> pystr list) list \<Rightarrow> pystr list" where
  "failures fs = map (\<lambda>im. pid_error (fst im) (hd (snd im))) (filter (\<lambda>im. is_error_result (snd im)) fs)"

section \<open>Evaluation of the examples\<close>

lemmas example_defs = example_pipe_def example_process_def example_lib_def running_session_def
  exited_session_def pending_session_def faulted_session_def

lemmas eval_defs = start_def ProcessHandler_def RingBuffer_def set_state_def S_def kill_def poll_def
  get_status_def exit_state_def process_output_step_def get_lines_def state_str_def Let_def

lemmas manager_defs = ProcessManager_def process_start_def with_lock_def put_handler_def
  note_call_def

section \<open>The loop of all\_kill\<close>

lemma update_at:
  "i \<notin> fst ` set pre \<Longrightarrow> AList.update i v (pre @ (i, h) # rest) = pre @ (i, v) # rest"
  by (induction pre) auto

lemma sublist_failed_prefix: "sublist (S ''failed'') (S ''failed: '' @ msg)"
proof -
  have "S ''failed: '' @ msg = [] @ S ''failed'' @ (S '': '' @ msg)"
    by (simp add: S_def)
  then show ?thesis unfolding sublist_def by blast
qed

lemma not_sublist_failed_success: "\<not> sublist (S ''failed'') (S ''success'')"
  by (simp add: S_def sublist_code)

lemma kill_result_cases:
  "fst (kill n h) = S ''success'' \<or> (\<exists>msg. fst (kill n h) = S ''failed: '' @ msg)"
  by (auto simp: kill_def Let_def S_def split: option.splits prod.splits)

lemma failed_iff_not_success:
  "sublist (S ''failed'') (fst (kill n h)) \<longleftrightarrow> fst (kill n h) \<noteq> S ''success''"
  using kill_result_cases [of n h] sublist_failed_prefix not_sublist_failed_success
  by metis

lemma all_kill_loop_errors:
  "fst (all_kill_loop n ps errors m) = errors @ map (kill_error n) (filter (kill_fails n) ps)"
proof (induction ps arbitrary: errors m)
  case Nil
  then show ?case by simp
next
  case (Cons a ps)
  obtain i h where a: "a = (i, h)" by (cases a)
  obtain r h1 where k: "kill n h = (r, h1)" by (cases "kill n h")
  have f: "sublist (S ''failed'') r \<longleftrightarrow> r \<noteq> S ''success''"
    using failed_iff_not_success [of n h] k by simp
  show ?case
    by (simp add: a k f Cons.IH kill_fails_def kill_error_def)
qed

lemma all_kill_loop_processes:
  assumes "distinct (map fst (pre @ ps))" and "processes m = pre @ ps"
  shows "processes (snd (all_kill_loop n ps errors m)) = pre @ map (killed n) ps"
  using assms
proof (induction ps arbitrary: pre errors m)
  case Nil
  then show ?case by simp
next
  case (Cons a ps)
  obtain i h where a: "a = (i, h)" by (cases a)
  show ?case
  proof (cases "state h = Running")
    case False
    have "processes (snd (all_kill_loop n ps errors m)) = (pre @ [(i, h)]) @ map (killed n) ps"
      using Cons.prems by (intro Cons.IH) (simp_all add: a)
    then show ?thesis using False by (simp add: a killed_def)
  next
    case True
    obtain r h1 where k: "kill n h = (r, h1)" by (cases "kill n h")
    let ?m1 = "put_handler i h1 (note_call i Op_kill m)"
    let ?e1 = "if sublist (S ''failed'') r then errors @ [pid_error i r] else errors"
    have fresh: "i \<notin> fst ` set pre" using Cons.prems(1) by (auto simp: a)
    have p1: "processes ?m1 = (pre @ [(i, h1)]) @ ps"
      using Cons.prems(2) fresh by (simp add: put_handler_def note_call_def a update_at)
    have d1: "distinct (map fst ((pre @ [(i, h1)]) @ ps))"
      using Cons.prems(1) by (simp add: a)
    have "processes (snd (all_kill_loop n ps ?e1 ?m1)) = (pre @ [(i, h1)]) @ map (killed n) ps"
      using d1 p1 by (rule Cons.IH)
    then show ?thesis using True k by (simp add: a killed_def)
  qed
qed

lemma all_kill_loop_calls:
  "calls (snd (all_kill_loop n ps errors m))
     = calls m @ map (\<lambda>ih. (fst ih, Op_kill, lock_depth m)) (filter (\<lambda>ih. state (snd ih) = Running) ps)
   \<and> lock_depth (snd (all_kill_loop n ps errors m)) = lock_depth m"
proof (induction ps arbitrary: errors m)
  case Nil
  then show ?case by simp
next
  case (Cons a ps)
  obtain i h where a: "a = (i, h)" by (cases a)
  show ?case
    by (simp add: a Cons.IH put_handler_def note_call_def split: prod.splits)
qed

section \<open>Facts about the searches\<close>

lemma slice_from_last_n: "(if n \<le> 0 then xs else slice_from (- n) xs) = last_n n xs"
  by (auto simp: slice_from_def last_n_def nat_diff_distrib')

lemma subseq_last_n_filter: "subseq (last_n n (filter P xs)) xs"
proof -
  have "suffix (last_n n (filter P xs)) (filter P xs)"
    by (simp add: last_n_def suffix_drop)
  then have "subseq (last_n n (filter P xs)) (filter P xs)"
    by (rule suffix_imp_subseq)
  then show ?thesis
    using subseq_filter_left subseq_order.order_trans by blast
qed

lemma types_distinct:
  "S ''string'' \<noteq> S ''regex''" "S ''string'' \<noteq> S ''wildcard''" "S ''regex'' \<noteq> S ''wildcard''"
  "S ''regex'' \<noteq> S ''string''" "S ''wildcard'' \<noteq> S ''string''" "S ''wildcard'' \<noteq> S ''regex''"
  by (simp_all add: S_def)

lemma is_match_string: "is_match lib (S ''string'') (Some p) = sublist p"
  by (rule ext) (simp add: is_match_def)

lemma is_match_regex:
  "re_compile lib p = Compiled c \<Longrightarrow> is_match lib (S ''regex'') (Some p) = re_search lib c"
  by (rule ext) (simp add: is_match_def types_distinct)

lemma is_match_wildcard:
  "is_match lib (S ''wildcard'') (Some p) = (\<lambda>line. fnmatch lib (py_strip line) p)"
  by (rule ext) (simp add: is_match_def types_distinct)

lemmas search_defs = search_output_def search_string_def search_regex_def search_wildcard_def
  append_rb_def utf8_encode_cp_def slice_from_def sublist_code is_error_result_def

lemma lines_session_buffer: "buffer (rbuffer lines_session) = [S ''Alpha'' @ [10], S ''Beta'' @ [10]]"
  by (simp add: lines_session_def example_defs eval_defs search_defs)

lemma error_line_session_buffer:
  "buffer (rbuffer error_line_session)
     = [S ''starting up'' @ [10], S ''ERROR: Empty wildcard pattern provided'']"
  by (simp add: error_line_session_def example_defs eval_defs search_defs)

lemma search_output_ok:
  assumes "\<not> search_fails lib ty pat (rbuffer h)"
  shows "search_output lib ty pat n h = last_n n (filter (is_match lib ty pat) (buffer (rbuffer h)))"
proof -
  consider (s) "ty = S ''string''" | (r) "ty = S ''regex''" | (w) "ty = S ''wildcard''"
    using assms by (auto simp: search_fails_def split: if_splits)
  then show ?thesis
  proof cases
    case s
    then obtain p where p: "pat = Some p" using assms by (auto simp: search_fails_def)
    show ?thesis
      by (simp add: s p search_output_def search_string_def is_match_string slice_from_last_n Let_def)
  next
    case r
    show ?thesis
    proof (cases pat)
      case None
      then have "buffer (rbuffer h) = []" using assms r by (simp add: search_fails_def types_distinct)
      then show ?thesis
        by (simp add: r None search_output_def search_regex_def types_distinct last_n_def)
    next
      case (Some p)
      then obtain c where c: "re_compile lib p = Compiled c"
        using assms r by (auto simp: search_fails_def types_distinct split: compile_result.splits)
      show ?thesis
        by (simp add: r Some c search_output_def search_regex_def is_match_regex types_distinct
            slice_from_last_n Let_def)
    qed
  next
    case w
    then obtain p where p: "pat = Some p" "p \<noteq> []"
      using assms by (cases pat) (auto simp: search_fails_def empty_pattern_def types_distinct)
    show ?thesis
      by (simp add: w p search_output_def search_wildcard_def is_match_wildcard types_distinct
          slice_from_last_n Let_def)
  qed
qed

lemma search_output_failure:
  assumes "search_fails lib ty pat (rbuffer h)"
  shows "\<exists>e. search_output lib ty pat n h = [S ''ERROR:'' @ e]"
  using assms
  by (auto simp: search_fails_def search_output_def search_string_def search_regex_def
      search_wildcard_def invalid_search_type_def empty_pattern_def S_def
      split: if_splits option.splits compile_result.splits)

lemma is_error_result_Cons:
  "is_error_result ms \<longleftrightarrow> (\<exists>line rest. ms = line # rest \<and> prefix (S ''ERROR:'') line)"
  by (cases ms) (simp_all add: is_error_result_def)

lemma is_error_result_ERROR: "is_error_result [S ''ERROR:'' @ e]"
  by (simp add: is_error_result_def)

section \<open>The byte budget of the buffer\<close>

text \<open>
  Where the budget holds. An entry whose encoding fits the capacity keeps the invariant,
  whatever its code points, and so does every sequence of such entries. With a positive
  capacity, entries of ASCII characters keep it as well, also when they are longer than
  the capacity; such an entry, appended to a buffer with no empty line, leaves exactly
  its last \<open>max_size_bytes\<close> characters with the counter at the capacity.
\<close>

lemma utf8_size_nonneg: "0 \<le> utf8_size s"
  by (simp add: utf8_size_def split: option.splits)

lemma sum_sizes_nonneg: "0 \<le> sum_list (map utf8_size xs)"
  by (induction xs) (simp_all add: utf8_size_nonneg)

lemma utf8_encode_ascii: "\<forall>c\<in>set s. c < 0x80 \<Longrightarrow> utf8_encode s = Some s"
  by (induction s) (simp_all add: utf8_encode_cp_def)

lemma utf8_encode_drop: "utf8_encode s \<noteq> None \<Longrightarrow> utf8_encode (drop k s) \<noteq> None"
proof (induction s arbitrary: k)
  case Nil
  then show ?case by simp
next
  case (Cons c cs)
  then show ?case by (cases k) (auto split: option.splits)
qed

lemma evict_keeps_budget:
  assumes "list_all (\<lambda>l. utf8_encode l \<noteq> None) buf" and "cur = sum_list (map utf8_size buf)"
    and "0 \<le> ds" and "ds \<le> cap"
  shows "\<exists>kept. evict cap ds buf cur = (None, kept, sum_list (map utf8_size kept))
           \<and> suffix kept buf \<and> sum_list (map utf8_size kept) + ds \<le> cap"
  using assms
proof (induction buf arbitrary: cur)
  case Nil
  then show ?case by simp
next
  case (Cons x xs)
  obtain b where b: "utf8_encode x = Some b" using Cons.prems(1) by auto
  show ?case
  proof (cases "cur + ds > cap")
    case True
    have "\<exists>kept. evict cap ds xs (cur - int (length b)) = (None, kept, sum_list (map utf8_size kept))
           \<and> suffix kept xs \<and> sum_list (map utf8_size kept) + ds \<le> cap"
      using Cons.prems by (intro Cons.IH) (simp_all add: utf8_size_def b)
    then show ?thesis using True b by (auto simp: suffix_Cons)
  next
    case False
    then show ?thesis using Cons.prems(2) by auto
  qed
qed

lemma append_fitting:
  assumes "rb_inv rb" and "utf8_encode data = Some enc" and "int (length enc) \<le> max_size_bytes rb"
  shows "fst (append_rb data rb) = None \<and> rb_inv (snd (append_rb data rb))
         \<and> (\<exists>kept. suffix kept (buffer rb) \<and> buffer (snd (append_rb data rb)) = kept @ [data])"
proof -
  obtain kept where k: "evict (max_size_bytes rb) (int (length enc)) (buffer rb) (current_size rb)
        = (None, kept, sum_list (map utf8_size kept))"
      "suffix kept (buffer rb)" "sum_list (map utf8_size kept) + int (length enc) \<le> max_size_bytes rb"
    using evict_keeps_budget [of "buffer rb" "current_size rb" "int (length enc)" "max_size_bytes rb"]
      assms by (auto simp: rb_inv_def stored_bytes_def)
  have enc: "list_all (\<lambda>l. utf8_encode l \<noteq> None) kept"
    using k(2) assms(1) by (auto simp: rb_inv_def list_all_iff suffix_def)
  show ?thesis
    using assms k enc
    by (auto simp: append_rb_def rb_inv_def stored_bytes_def utf8_size_def Let_def)
qed

lemma append_ascii:
  assumes "rb_inv rb" and "\<forall>c\<in>set data. c < 0x80" and "0 < max_size_bytes rb"
  shows "fst (append_rb data rb) = None \<and> rb_inv (snd (append_rb data rb))"
proof (cases "int (length data) \<le> max_size_bytes rb")
  case True
  then show ?thesis
    using append_fitting [OF assms(1) utf8_encode_ascii [OF assms(2)]] by simp
next
  case False
  let ?cap = "max_size_bytes rb"
  let ?t = "slice_from (- ?cap) data"
  have t: "?t = drop (length data - nat ?cap) data"
    using assms(3) False by (simp add: slice_from_def nat_diff_distrib')
  have tl: "int (length ?t) = ?cap" using assms(3) False by (simp add: t)
  have ta: "\<forall>c\<in>set ?t. c < 0x80" unfolding t using assms(2) by (meson in_set_dropD)
  have te: "utf8_encode ?t = Some ?t" by (rule utf8_encode_ascii [OF ta])
  obtain kept where k: "evict ?cap ?cap (buffer rb) (current_size rb)
        = (None, kept, sum_list (map utf8_size kept))"
      "suffix kept (buffer rb)" "sum_list (map utf8_size kept) + ?cap \<le> ?cap"
    using evict_keeps_budget [of "buffer rb" "current_size rb" ?cap ?cap] assms
    by (auto simp: rb_inv_def stored_bytes_def)
  have z: "sum_list (map utf8_size kept) = 0"
    using k(3) sum_sizes_nonneg [of kept] by simp
  have enc: "list_all (\<lambda>l. utf8_encode l \<noteq> None) kept"
    using k(2) assms(1) by (auto simp: rb_inv_def list_all_iff suffix_def)
  have a: "append_rb data rb
             = (None, rb\<lparr>buffer := kept @ [?t], current_size := sum_list (map utf8_size kept) + ?cap\<rparr>)"
    using False k(1) by (simp add: append_rb_def utf8_encode_ascii [OF assms(2)] Let_def)
  show ?thesis
    unfolding a using enc z te tl
    by (simp add: rb_inv_def stored_bytes_def utf8_size_def)
qed

lemma appends_ascii:
  assumes "rb_inv rb" and "\<forall>d\<in>set ds. \<forall>c\<in>set d. c < 0x80" and "0 < max_size_bytes rb"
  shows "rb_inv (appends ds rb)"
  using assms
proof (induction ds arbitrary: rb)
  case Nil
  then show ?case by (simp add: appends_def)
next
  case (Cons d ds)
  have i: "rb_inv (snd (append_rb d rb))"
    using append_ascii [of rb d] Cons.prems by simp
  have c: "max_size_bytes (snd (append_rb d rb)) = max_size_bytes rb"
    by (auto simp: append_rb_def Let_def split: option.splits prod.splits)
  have "rb_inv (appends ds (snd (append_rb d rb)))"
    using i c Cons.prems by (intro Cons.IH) simp_all
  then show ?case by (simp add: appends_def)
qed


lemma appends_fitting:
  assumes "rb_inv rb"
    and "\<forall>d\<in>set ds. \<exists>enc. utf8_encode d = Some enc \<and> int (length enc) \<le> max_size_bytes rb"
  shows "rb_inv (appends ds rb)"
  using assms
proof (induction ds arbitrary: rb)
  case Nil
  then show ?case by (simp add: appends_def)
next
  case (Cons d ds)
  obtain enc where e: "utf8_encode d = Some enc" "int (length enc) \<le> max_size_bytes rb"
    using Cons.prems(2) by auto
  have i: "rb_inv (snd (append_rb d rb))"
    using append_fitting [OF Cons.prems(1) e] by simp
  have c: "max_size_bytes (snd (append_rb d rb)) = max_size_bytes rb"
    by (auto simp: append_rb_def Let_def split: option.splits prod.splits)
  have "rb_inv (appends ds (snd (append_rb d rb)))"
    using i c Cons.prems(2) by (intro Cons.IH) simp_all
  then show ?case by (simp add: appends_def)
qed

lemma utf8_size_positive:
  assumes "utf8_encode s \<noteq> None" and "s \<noteq> []"
  shows "0 < utf8_size s"
proof -
  obtain c cs where s: "s = c # cs" using assms(2) by (cases s) auto
  obtain b where b: "utf8_encode_cp c = Some b" using assms(1) s by (auto split: option.splits)
  have "b \<noteq> []" using b by (auto simp: utf8_encode_cp_def split: if_splits)
  then show ?thesis
    using assms(1) s b by (auto simp: utf8_size_def split: option.splits)
qed

lemma sum_sizes_zero:
  assumes "list_all (\<lambda>l. utf8_encode l \<noteq> None) xs" and "[] \<notin> set xs"
    and "sum_list (map utf8_size xs) = 0"
  shows "xs = []"
proof (cases xs)
  case Nil
  then show ?thesis .
next
  case (Cons x ys)
  have "0 < utf8_size x" using assms(1,2) Cons by (intro utf8_size_positive) auto
  moreover have "0 \<le> sum_list (map utf8_size ys)" by (rule sum_sizes_nonneg)
  ultimately show ?thesis using assms(3) Cons by simp
qed

lemma append_oversize_ascii:
  assumes "rb_inv rb" and "\<forall>c\<in>set data. c < 0x80" and "0 < max_size_bytes rb"
    and "max_size_bytes rb < int (length data)" and "[] \<notin> set (buffer rb)"
  shows "append_rb data rb
           = (None, rb\<lparr>buffer := [drop (length data - nat (max_size_bytes rb)) data],
                         current_size := max_size_bytes rb\<rparr>)"
proof -
  let ?cap = "max_size_bytes rb"
  have t: "slice_from (- ?cap) data = drop (length data - nat ?cap) data"
    using assms(3,4) by (simp add: slice_from_def nat_diff_distrib')
  obtain kept where k: "evict ?cap ?cap (buffer rb) (current_size rb)
        = (None, kept, sum_list (map utf8_size kept))"
      "suffix kept (buffer rb)" "sum_list (map utf8_size kept) + ?cap \<le> ?cap"
    using evict_keeps_budget [of "buffer rb" "current_size rb" ?cap ?cap] assms
    by (auto simp: rb_inv_def stored_bytes_def)
  have z: "sum_list (map utf8_size kept) = 0"
    using k(3) sum_sizes_nonneg [of kept] by simp
  have enc: "list_all (\<lambda>l. utf8_encode l \<noteq> None) kept"
    using k(2) assms(1) by (auto simp: rb_inv_def list_all_iff suffix_def)
  have ne: "[] \<notin> set kept"
    using k(2) assms(5) by (auto simp: suffix_def)
  have e: "kept = []" by (rule sum_sizes_zero [OF enc ne z])
  show ?thesis
    using assms(4) k(1) by (simp add: append_rb_def utf8_encode_ascii [OF assms(2)] Let_def t e)
qed

text \<open>
  C1. The claim: after every \<open>append\<close> the counter equals the UTF-8 bytes of the
  retained lines and does not exceed the capacity, and an entry longer than the capacity
  leaves exactly its trailing \<open>capacityBytes\<close> bytes. The source compares the length
  in bytes with the capacity, but then keeps the last \<open>max_size_bytes\<close> code points
  and books them as \<open>max_size_bytes\<close> bytes. With capacity 2 and three times U+00E9
  (6 bytes) the buffer keeps two code points, which are 4 bytes, while the counter says 2;
  the next append evicts them, subtracts 4 and leaves the counter at -1.
\<close>

theorem append_oversize_multibyte:
  "append_rb [0xE9, 0xE9, 0xE9] (RingBuffer 2)
     = (None, \<lparr>max_size_bytes = 2, buffer = [[0xE9, 0xE9]], current_size = 2\<rparr>)
   \<and> stored_bytes (snd (append_rb [0xE9, 0xE9, 0xE9] (RingBuffer 2))) = 4
   \<and> append_rb [0x61] (snd (append_rb [0xE9, 0xE9, 0xE9] (RingBuffer 2)))
     = (None, \<lparr>max_size_bytes = 2, buffer = [[0x61]], current_size = - 1\<rparr>)"
  by (simp add: append_rb_def RingBuffer_def utf8_encode_cp_def slice_from_def
      stored_bytes_def utf8_size_def)

section \<open>Leaving the Running state\<close>

lemma exit_state_Completed: "exit_state c = Completed \<longleftrightarrow> c = 0"
  by (simp add: exit_state_def)

lemma exit_state_Error_exit: "exit_state c = Error_exit d \<longleftrightarrow> c \<noteq> 0 \<and> d = c"
  by (auto simp: exit_state_def)

lemma get_status_state:
  assumes "state h = Running" and "process h = Some p"
  shows "state (snd (get_status h)) = (case fst (poll p) of None \<Rightarrow> Running | Some c \<Rightarrow> exit_state c)"
  using assms by (simp add: get_status_def set_state_def Let_def split: prod.splits option.splits)

lemma kill_state:
  assumes "state h = Running" and "process h = Some p"
  shows "state (snd (kill n h)) =
           (if kill_raises p = None \<and> fst (poll (wait_loop n (p\<lparr>kill_calls := kill_calls p + 1\<rparr>))) \<noteq> None
            then Completed else Running)"
  using assms by (simp add: kill_def set_state_def Let_def split: prod.splits option.splits)

lemma idle_state:
  assumes "state h = Running" and "process h = Some p"
    and "processor_alive h" and "\<not> stop_event h" and "io_queue h = []"
  shows "state (process_output_step lib arrived h) =
           (if flush_ok lib h then (case fst (poll p) of None \<Rightarrow> Running | Some c \<Rightarrow> exit_state c)
            else Error)"
    and "flush_ok lib h \<Longrightarrow> current_line (process_output_step lib arrived h) = []
          \<and> io_queue (process_output_step lib arrived h) = arrived"
  using assms
  by (auto simp add: process_output_step_def commit_line_def set_state_def Let_def flush_ok_def
      split: prod.splits option.splits)

lemma processor_turn_state:
  assumes "state h = Running" and "process h = Some p"
  shows "state (process_output_step lib arrived h) = Completed \<longleftrightarrow>
           processor_alive h \<and> \<not> stop_event h \<and> io_queue h = [] \<and> flush_ok lib h
           \<and> fst (poll p) = Some 0"
    and "state (process_output_step lib arrived h) = Error_exit d \<longleftrightarrow>
           processor_alive h \<and> \<not> stop_event h \<and> io_queue h = [] \<and> flush_ok lib h
           \<and> fst (poll p) = Some d \<and> d \<noteq> 0"
  using assms
  by (auto simp add: process_output_step_def commit_line_def set_state_def Let_def flush_ok_def
      exit_state_def split: prod.splits option.splits list.splits qitem.splits if_splits)

lemma others_keep_running:
  assumes "state h = Running" and "process h = Some p"
  shows "state (cleanup h) = Running"
    and "state (snd (send_line line h)) = Running"
    and "state (snd (send_chars chars h)) = Running"
    and "state (snd (start popen tf h)) = Running"
  using assms
  by (auto simp add: cleanup_def send_line_def send_chars_def start_def Let_def
      split: prod.splits option.splits sum.splits)

text \<open>
  C2, as stated, fails. The claim: a Running session becomes Completed exactly when the
  process exited with status 0 and all pending output is committed, and by no other route.
  \<open>kill\<close> sets Completed as soon as the process is seen to have exited, whatever the
  status: the killed \<open>sleep\<close> ends with status -9 and is Completed. \<open>get_status\<close>
  sets Completed on a zero status while the queue still holds output.
\<close>

theorem kill_completes_nonzero_exit:
  "state running_session = Running
   \<and> state (snd (kill 1 running_session)) = Completed
   \<and> map_option returncode (process (snd (kill 1 running_session))) = Some (Some (- 9))
   \<and> state pending_session = Running
   \<and> state (snd (get_status pending_session)) = Completed
   \<and> io_queue (snd (get_status pending_session)) = [Data (S ''stdout'') 0x48]"
  by (simp add: example_defs eval_defs)

text \<open>
  C2, amended. For a Running session with a process: \<open>get_status\<close> and the idle turn
  of the processor (queue empty, accumulator committed) leave Running unchanged while the
  process is alive, set Completed exactly on exit status 0 and "error: Exit code N"
  exactly on a status N other than 0; after such an idle turn the accumulator is empty
  and the queue holds only what arrived meanwhile; \<open>get_status\<close> does this without
  looking at the queue. \<open>kill\<close> sets Completed exactly when \<open>kill()\<close> does not
  raise and the process is seen to have exited within the window, whatever its status,
  and leaves Running otherwise. Running becomes Completed by no other route than these
  three: a turn of the processor sets Completed only if it is such an idle turn that
  finds status 0 (a turn that takes an entry from the queue, or that finds the stop
  signal, never does), and \<open>cleanup\<close>, \<open>send_line\<close>, \<open>send_chars\<close> and a second
  \<open>start\<close> leave the session Running.
\<close>

theorem running_transitions:
  assumes "state h = Running" and "process h = Some p"
  shows "state (snd (get_status h)) = (case fst (poll p) of None \<Rightarrow> Running | Some c \<Rightarrow> exit_state c)
    \<and> (processor_alive h \<and> \<not> stop_event h \<and> io_queue h = [] \<longrightarrow>
         state (process_output_step lib arrived h) =
           (if flush_ok lib h
            then (case fst (poll p) of None \<Rightarrow> Running | Some c \<Rightarrow> exit_state c) else Error)
         \<and> (flush_ok lib h \<longrightarrow> current_line (process_output_step lib arrived h) = []
                                \<and> io_queue (process_output_step lib arrived h) = arrived))
    \<and> state (snd (kill n h)) =
         (if kill_raises p = None
             \<and> fst (poll (wait_loop n (p\<lparr>kill_calls := kill_calls p + 1\<rparr>))) \<noteq> None
          then Completed else Running)
    \<and> (\<forall>c. (exit_state c = Completed \<longleftrightarrow> c = 0)
           \<and> (\<forall>d. exit_state c = Error_exit d \<longleftrightarrow> c \<noteq> 0 \<and> d = c))
    \<and> (state (process_output_step lib arrived h) = Completed \<longleftrightarrow>
           processor_alive h \<and> \<not> stop_event h \<and> io_queue h = [] \<and> flush_ok lib h
           \<and> fst (poll p) = Some 0)
    \<and> (\<forall>d. state (process_output_step lib arrived h) = Error_exit d \<longleftrightarrow>
           processor_alive h \<and> \<not> stop_event h \<and> io_queue h = [] \<and> flush_ok lib h
           \<and> fst (poll p) = Some d \<and> d \<noteq> 0)
    \<and> state (cleanup h) = Running
    \<and> state (snd (send_line line h)) = Running
    \<and> state (snd (send_chars chars h)) = Running
    \<and> state (snd (start popen tf h)) = Running"
proof (intro conjI allI)
  show "state (process_output_step lib arrived h) = Completed \<longleftrightarrow>
           processor_alive h \<and> \<not> stop_event h \<and> io_queue h = [] \<and> flush_ok lib h
           \<and> fst (poll p) = Some 0"
    by (rule processor_turn_state(1) [OF assms])
  show "state (process_output_step lib arrived h) = Error_exit d \<longleftrightarrow>
           processor_alive h \<and> \<not> stop_event h \<and> io_queue h = [] \<and> flush_ok lib h
           \<and> fst (poll p) = Some d \<and> d \<noteq> 0" for d
    by (rule processor_turn_state(2) [OF assms])
  show "state (cleanup h) = Running"
    by (rule others_keep_running(1) [OF assms])
  show "state (snd (send_line line h)) = Running"
    by (rule others_keep_running(2) [OF assms])
  show "state (snd (send_chars chars h)) = Running"
    by (rule others_keep_running(3) [OF assms])
  show "state (snd (start popen tf h)) = Running"
    by (rule others_keep_running(4) [OF assms])
  show "state (snd (get_status h)) = (case fst (poll p) of None \<Rightarrow> Running | Some c \<Rightarrow> exit_state c)"
    by (rule get_status_state [OF assms])
  show "processor_alive h \<and> \<not> stop_event h \<and> io_queue h = [] \<longrightarrow>
         state (process_output_step lib arrived h) =
           (if flush_ok lib h
            then (case fst (poll p) of None \<Rightarrow> Running | Some c \<Rightarrow> exit_state c) else Error)
         \<and> (flush_ok lib h \<longrightarrow> current_line (process_output_step lib arrived h) = []
                                \<and> io_queue (process_output_step lib arrived h) = arrived)"
    using idle_state [OF assms] by blast
  show "state (snd (kill n h)) =
         (if kill_raises p = None
             \<and> fst (poll (wait_loop n (p\<lparr>kill_calls := kill_calls p + 1\<rparr>))) \<noteq> None
          then Completed else Running)"
    by (rule kill_state [OF assms])
  show "exit_state c = Completed \<longleftrightarrow> c = 0" for c
    by (rule exit_state_Completed)
  show "exit_state c = Error_exit d \<longleftrightarrow> c \<noteq> 0 \<and> d = c" for c d
    by (rule exit_state_Error_exit)
qed

theorem running_transitions_witness:
  "state exited_session = Running
   \<and> process exited_session = Some (example_process\<lparr>poll_script := [Some 0]\<rparr>)
   \<and> processor_alive exited_session \<and> \<not> stop_event exited_session
   \<and> io_queue exited_session = [] \<and> flush_ok example_lib exited_session
   \<and> state (snd (get_status exited_session)) = Completed
   \<and> state (process_output_step example_lib [] exited_session) = Completed
   \<and> state (snd (kill 1 exited_session)) = Completed
   \<and> state (cleanup exited_session) = Running
   \<and> state pending_session = Running \<and> io_queue pending_session \<noteq> []
   \<and> state (process_output_step example_lib [] pending_session) \<noteq> Completed"
proof -
  have a: "state exited_session = Running"
    by (simp add: example_defs eval_defs)
  have b: "process exited_session = Some (example_process\<lparr>poll_script := [Some 0]\<rparr>)"
    by (simp add: example_defs eval_defs)
  have c: "processor_alive exited_session \<and> \<not> stop_event exited_session
             \<and> io_queue exited_session = [] \<and> flush_ok example_lib exited_session"
    by (simp add: example_defs eval_defs flush_ok_def)
  have a2: "state pending_session = Running"
    by (simp add: example_defs eval_defs)
  have b2: "process pending_session = Some (example_process\<lparr>poll_script := [Some 0]\<rparr>)"
    by (simp add: example_defs eval_defs)
  have c2: "io_queue pending_session \<noteq> []"
    by (simp add: pending_session_def)
  have d: "state (snd (get_status exited_session)) = Completed
   \<and> state (process_output_step example_lib [] exited_session) = Completed
   \<and> state (snd (kill 1 exited_session)) = Completed
   \<and> state (cleanup exited_session) = Running"
    using c running_transitions [OF a b, where lib = example_lib and arrived = "[]" and n = 1]
    by (simp add: example_process_def poll_def exit_state_def)
  have e: "state (process_output_step example_lib [] pending_session) \<noteq> Completed"
    using c2 running_transitions [OF a2 b2, where lib = example_lib and arrived = "[]"]
    by blast
  show ?thesis
    using a b c a2 c2 d e by simp
qed

section \<open>Killing a session that is not running\<close>

text \<open>
  C3, as stated, fails. The claim: \<open>kill\<close> on a session in a terminal state
  (Completed or Error) fails and sends no signal. The source refuses a state that is
  neither "running" nor "error": a session whose pipeline recorded a fault is in the
  state "error", has a process, and \<open>kill\<close> signals it and reports success.
\<close>

theorem kill_error_session_signals:
  "state faulted_session = Error
   \<and> map_option kill_calls (process faulted_session) = Some 0
   \<and> fst (kill 1 faulted_session) = S ''success''
   \<and> map_option kill_calls (process (snd (kill 1 faulted_session))) = Some 1
   \<and> state (snd (kill 1 faulted_session)) = Completed"
  by (simp add: example_defs eval_defs)

text \<open>
  C3, amended. \<open>kill\<close> on a session that is Completed, or in the state
  "error: Exit code N", or that has no process (a failed spawn among them), returns
  "failed: Process not running" (with no process, "failed: No process to kill") and
  leaves the session as it was: no call of \<open>kill()\<close> on the process is made.
\<close>

theorem kill_terminal_refused:
  assumes "state h = Completed \<or> state h = Error_exit c \<or> process h = None"
  shows "snd (kill n h) = h
    \<and> fst (kill n h) = (if process h = None then S ''failed: No process to kill''
                        else S ''failed: Process not running'')"
  using assms by (auto simp: kill_def split: option.splits)

theorem kill_terminal_refused_witness:
  "state (snd (get_status exited_session)) = Completed
   \<and> kill 1 (snd (get_status exited_session))
       = (S ''failed: Process not running'', snd (get_status exited_session))"
proof -
  have a: "state (snd (get_status exited_session)) = Completed"
    by (simp add: example_defs eval_defs)
  have b: "process (snd (get_status exited_session)) \<noteq> None"
    by (simp add: example_defs eval_defs)
  show ?thesis
    using a b kill_terminal_refused [of "snd (get_status exited_session)" 0 1]
    by (auto simp: prod_eq_iff)
qed

section \<open>Search results are subsequences of the buffer\<close>

text \<open>
  C4, as stated, fails. The claim: for every mode, every pattern and every \<open>n\<close> the
  search returns a subsequence of the buffer. A search that fails returns its message in
  the list of lines: the wildcard search with an empty pattern over an empty buffer
  returns one entry, which is not a subsequence of nothing.
\<close>

theorem empty_wildcard_not_subsequence:
  "search_output example_lib (S ''wildcard'') (Some []) 5 exited_session
     = [S ''ERROR: Empty wildcard pattern provided'']
   \<and> buffer (rbuffer exited_session) = []
   \<and> \<not> subseq (search_output example_lib (S ''wildcard'') (Some []) 5 exited_session)
               (buffer (rbuffer exited_session))"
  by (simp add: example_defs eval_defs search_defs)

text \<open>
  C4, amended. For every search type, pattern and \<open>n\<close>: when the search fails (see
  \<open>search_fails\<close>) the result is a single entry that starts with "ERROR:"; otherwise
  the result is a subsequence of the buffer in the buffer's order, namely all matching
  lines when \<open>n\<close> is not positive and the last \<open>n\<close> of them when it is.
\<close>

theorem search_result_shape:
  "(search_fails lib ty pat (rbuffer h) \<longrightarrow>
      (\<exists>e. search_output lib ty pat n h = [S ''ERROR:'' @ e]))
   \<and> (\<not> search_fails lib ty pat (rbuffer h) \<longrightarrow>
        subseq (search_output lib ty pat n h) (buffer (rbuffer h))
      \<and> search_output lib ty pat n h
          = last_n n (filter (is_match lib ty pat) (buffer (rbuffer h)))
      \<and> (n \<le> 0 \<longrightarrow> search_output lib ty pat n h
                       = filter (is_match lib ty pat) (buffer (rbuffer h)))
      \<and> (0 < n \<longrightarrow> search_output lib ty pat n h
                       = drop (length (filter (is_match lib ty pat) (buffer (rbuffer h))) - nat n)
                           (filter (is_match lib ty pat) (buffer (rbuffer h)))))"
  using search_output_failure [of lib ty pat h n] search_output_ok [of lib ty pat h n]
    subseq_last_n_filter [of n "is_match lib ty pat" "buffer (rbuffer h)"]
  by (auto simp: last_n_def)

theorem search_result_shape_witness:
  "\<not> search_fails example_lib (S ''string'') (Some (S ''eta'')) (rbuffer lines_session)
   \<and> search_output example_lib (S ''string'') (Some (S ''eta'')) 1 lines_session = [S ''Beta'' @ [10]]
   \<and> subseq [S ''Beta'' @ [10]] (buffer (rbuffer lines_session))
   \<and> search_fails example_lib (S ''regex'') (Some (S ''['')) (rbuffer lines_session)
   \<and> search_output example_lib (S ''regex'') (Some (S ''['')) 1 lines_session
       = [S ''ERROR: Invalid regex pattern: bad pattern'']"
proof -
  have a: "\<not> search_fails example_lib (S ''string'') (Some (S ''eta'')) (rbuffer lines_session)"
    by (simp add: search_fails_def)
  have b: "search_fails example_lib (S ''regex'') (Some (S ''['')) (rbuffer lines_session)"
    by (simp add: search_fails_def types_distinct example_lib_def)
  have c: "search_output example_lib (S ''string'') (Some (S ''eta'')) 1 lines_session = [S ''Beta'' @ [10]]"
    by (simp add: search_output_def search_string_def lines_session_buffer slice_from_def S_def
        sublist_code)
  have d: "search_output example_lib (S ''regex'') (Some (S ''['')) 1 lines_session
       = [S ''ERROR: Invalid regex pattern: bad pattern'']"
    by (simp add: search_output_def search_regex_def example_lib_def S_def)
  have e: "subseq (search_output example_lib (S ''string'') (Some (S ''eta'')) 1 lines_session)
             (buffer (rbuffer lines_session))"
    using a search_result_shape [of example_lib "S ''string''" "Some (S ''eta'')" lines_session 1]
    by blast
  have f: "subseq [S ''Beta'' @ [10]] (buffer (rbuffer lines_session))"
    using e unfolding c .
  show ?thesis
    using a b c d f by simp
qed

section \<open>Empty and missing patterns\<close>

text \<open>
  C5, as stated, fails. The claim: at the buffer and at the session, an empty or missing
  pattern gives a validation failure in every mode, never lines and never a silent empty
  result. The string search of the buffer, and of the session, accepts the empty string,
  which every line contains, and returns the whole buffer; the regex search with \<open>None\<close>
  over an empty buffer returns the empty list.
\<close>

theorem empty_pattern_accepted_below_registry:
  "search_output example_lib (S ''string'') (Some []) 0 lines_session
     = [S ''Alpha'' @ [10], S ''Beta'' @ [10]]
   \<and> \<not> is_error_result (search_output example_lib (S ''string'') (Some []) 0 lines_session)
   \<and> search_string (Some []) 0 (rbuffer lines_session) = buffer (rbuffer lines_session)
   \<and> search_output example_lib (S ''regex'') None 5 exited_session = []"
  by (simp add: search_output_def search_string_def search_regex_def lines_session_buffer
      types_distinct is_error_result_def S_def exited_session_def example_process_def
      start_def ProcessHandler_def RingBuffer_def set_state_def)

text \<open>
  C5, amended. The empty or missing pattern is rejected at the registry:
  \<open>stdio_search_lines\<close> always returns a failure for it and leaves the manager as it
  was, with "ERROR: Search pattern cannot be empty" when the id is registered and the
  search type valid, and \<open>all_search\<close> returns that failure under the id -1. Below the
  registry the wildcard search rejects an empty or missing pattern and the string search
  a missing one.
\<close>

theorem empty_pattern_rejected:
  assumes "empty_pattern pat"
  shows "is_error_result (fst (stdio_search_lines lib i ty pat k m))
    \<and> snd (stdio_search_lines lib i ty pat k m) = m
    \<and> (map_of (processes m) i \<noteq> None \<and> valid_search_type ty \<longrightarrow>
          fst (stdio_search_lines lib i ty pat k m) = [S ''ERROR: Search pattern cannot be empty''])
    \<and> (valid_search_type ty \<longrightarrow>
          all_search lib ty pat k m = ([(- 1, [S ''ERROR: Search pattern cannot be empty''])], m))
    \<and> search_wildcard lib pat k rb = [S ''ERROR: Empty wildcard pattern provided'']
    \<and> search_output lib (S ''wildcard'') pat k h = [S ''ERROR: Empty wildcard pattern provided'']
    \<and> (pat = None \<longrightarrow> search_string pat k rb = [S ''ERROR: Search string cannot be None''])"
  using assms
  by (auto simp: stdio_search_lines_def all_search_def with_lock_def is_error_result_def
      not_found_lines_def invalid_search_type_def empty_pattern_def search_wildcard_def
      search_output_def search_string_def types_distinct S_def split: option.splits)

theorem empty_pattern_rejected_witness:
  "empty_pattern (Some [])
   \<and> map_of (processes example_manager) 4242 \<noteq> None \<and> valid_search_type (S ''string'')
   \<and> stdio_search_lines example_lib 4242 (S ''string'') (Some []) 5 example_manager
       = ([S ''ERROR: Search pattern cannot be empty''], example_manager)
   \<and> all_search example_lib (S ''regex'') (Some []) 2 example_manager
       = ([(- 1, [S ''ERROR: Search pattern cannot be empty''])], example_manager)"
proof -
  have a: "empty_pattern (Some [])" by (simp add: empty_pattern_def)
  have b: "map_of (processes example_manager) 4242 \<noteq> None"
    by (simp add: example_manager_def example_defs eval_defs manager_defs)
  have c: "valid_search_type (S ''string'') \<and> valid_search_type (S ''regex'')"
    by (simp add: valid_search_type_def)
  show ?thesis
    using a b c
      empty_pattern_rejected [OF a, of example_lib 4242 "S ''string''" 5 example_manager]
      empty_pattern_rejected [OF a, of example_lib 4242 "S ''regex''" 2 example_manager]
    by (auto simp: prod_eq_iff)
qed

section \<open>Spawn failures and registration\<close>

lemma start_failure:
  assumes "process h = None" and "command h \<noteq> []" and "\<forall>p. popen \<noteq> Spawned p"
  shows "\<exists>msg. start popen tf h = ((S ''failed: '' @ msg, None), (set_state Error h)\<lparr>error := Some msg\<rparr>)"
  using assms by (cases popen) (simp_all add: start_def spawn_failed_def Let_def)

lemma start_failure_typed:
  assumes "process h = None" and "command h \<noteq> []"
  shows "fst (fst (start (File_not_found msg) tf h)) = S ''failed: Command not found: '' @ msg"
    and "fst (fst (start (Index_error msg) tf h)) = S ''failed: Invalid command format: '' @ msg"
    and "fst (fst (start (Permission_error msg) tf h)) = S ''failed: Permission denied: '' @ msg"
    and "fst (fst (start (Subprocess_error msg) tf h)) = S ''failed: Subprocess error: '' @ msg"
    and "fst (fst (start (Other_exception msg) tf h)) = S ''failed: '' @ msg"
  using assms by (simp_all add: start_def spawn_failed_def Let_def S_def)

lemma start_pid_success:
  assumes "snd (fst (start popen tf h)) = Some i"
  shows "fst (fst (start popen tf h)) = S ''success'' \<and> state (snd (start popen tf h)) = Running
         \<and> pid (snd (start popen tf h)) = Some i"
  using assms
  by (cases popen) (auto simp: start_def spawn_failed_def Let_def set_state_def split: if_splits option.splits)

lemma process_start_unchanged:
  assumes "snd (fst (start popen tf (ProcessHandler cmd))) = None"
  shows "process_start popen tf cmd m =
           (if cmd = [] then (S ''failed: Command list cannot be empty'', None)
            else fst (start popen tf (ProcessHandler cmd)), m)"
  using assms by (auto simp: process_start_def split: prod.splits option.splits)

lemma process_start_registered:
  assumes "fst (start popen tf (ProcessHandler cmd)) = (S ''success'', Some i)" and "cmd \<noteq> []"
  shows "process_start popen tf cmd m =
           ((S ''success'', Some i),
            m\<lparr>processes := AList.update i (snd (start popen tf (ProcessHandler cmd))) (processes m)\<rparr>)"
  using assms
  by (auto simp: process_start_def with_lock_def put_handler_def split: prod.splits option.splits)

text \<open>
  C6. When the spawn fails, \<open>start\<close> returns a failure that names the kind of fault
  and no process id, the state becomes Error, and Running is never assigned: the only
  state the call assigns is Error. \<open>process_start\<close> then returns the same failure and
  leaves the manager as it was. In general \<open>process_start\<close> changes the registry only
  when \<open>start\<close> returned success with a process id, and it then holds the started
  session under that id.
\<close>

theorem start_failure_and_registration:
  "(process h = None \<and> command h \<noteq> [] \<and> (\<forall>p. popen \<noteq> Spawned p) \<longrightarrow>
      (\<exists>msg. fst (start popen tf h) = (S ''failed: '' @ msg, None)
             \<and> error (snd (start popen tf h)) = Some msg)
      \<and> state (snd (start popen tf h)) = Error
      \<and> state_log (snd (start popen tf h)) = state_log h @ [Error]
      \<and> process (snd (start popen tf h)) = None)
   \<and> (process h = None \<and> command h \<noteq> [] \<longrightarrow>
        fst (fst (start (File_not_found msg) tf h)) = S ''failed: Command not found: '' @ msg
      \<and> fst (fst (start (Permission_error msg) tf h)) = S ''failed: Permission denied: '' @ msg
      \<and> fst (fst (start (Index_error msg) tf h)) = S ''failed: Invalid command format: '' @ msg
      \<and> fst (fst (start (Subprocess_error msg) tf h)) = S ''failed: Subprocess error: '' @ msg
      \<and> fst (fst (start (Other_exception msg) tf h)) = S ''failed: '' @ msg)
   \<and> (cmd \<noteq> [] \<and> (\<forall>p. popen \<noteq> Spawned p) \<longrightarrow>
        process_start popen tf cmd m = (fst (start popen tf (ProcessHandler cmd)), m)
      \<and> state_log (snd (start popen tf (ProcessHandler cmd))) = [Error])
   \<and> (processes (snd (process_start popen tf cmd m)) \<noteq> processes m \<longrightarrow>
        (\<exists>i. fst (start popen tf (ProcessHandler cmd)) = (S ''success'', Some i)
            \<and> state (snd (start popen tf (ProcessHandler cmd))) = Running))
   \<and> (cmd \<noteq> [] \<and> fst (start popen tf (ProcessHandler cmd)) = (S ''success'', Some i) \<longrightarrow>
        fst (process_start popen tf cmd m) = (S ''success'', Some i)
      \<and> map_of (processes (snd (process_start popen tf cmd m))) i
          = Some (snd (start popen tf (ProcessHandler cmd))))"
proof (intro conjI impI)
  assume a: "process h = None \<and> command h \<noteq> [] \<and> (\<forall>p. popen \<noteq> Spawned p)"
  then obtain msg where m: "start popen tf h = ((S ''failed: '' @ msg, None), (set_state Error h)\<lparr>error := Some msg\<rparr>)"
    using start_failure by blast
  show "\<exists>msg. fst (start popen tf h) = (S ''failed: '' @ msg, None)
             \<and> error (snd (start popen tf h)) = Some msg"
    using m by simp
  show "state (snd (start popen tf h)) = Error" using m by (simp add: set_state_def)
  show "state_log (snd (start popen tf h)) = state_log h @ [Error]" using m by (simp add: set_state_def)
  show "process (snd (start popen tf h)) = None" using m a by (simp add: set_state_def)
next
  assume a: "process h = None \<and> command h \<noteq> []"
  show "fst (fst (start (File_not_found msg) tf h)) = S ''failed: Command not found: '' @ msg"
    "fst (fst (start (Permission_error msg) tf h)) = S ''failed: Permission denied: '' @ msg"
    "fst (fst (start (Index_error msg) tf h)) = S ''failed: Invalid command format: '' @ msg"
    "fst (fst (start (Subprocess_error msg) tf h)) = S ''failed: Subprocess error: '' @ msg"
    "fst (fst (start (Other_exception msg) tf h)) = S ''failed: '' @ msg"
    using a start_failure_typed by blast+
next
  assume a: "cmd \<noteq> [] \<and> (\<forall>p. popen \<noteq> Spawned p)"
  then obtain msg where m: "start popen tf (ProcessHandler cmd)
      = ((S ''failed: '' @ msg, None), (set_state Error (ProcessHandler cmd))\<lparr>error := Some msg\<rparr>)"
    using start_failure [of "ProcessHandler cmd" popen tf] by (auto simp: ProcessHandler_def)
  show "process_start popen tf cmd m = (fst (start popen tf (ProcessHandler cmd)), m)"
    using process_start_unchanged [of popen tf cmd m] m a by simp
  show "state_log (snd (start popen tf (ProcessHandler cmd))) = [Error]"
    using m by (simp add: set_state_def ProcessHandler_def)
next
  assume a: "processes (snd (process_start popen tf cmd m)) \<noteq> processes m"
  show "\<exists>i. fst (start popen tf (ProcessHandler cmd)) = (S ''success'', Some i)
            \<and> state (snd (start popen tf (ProcessHandler cmd))) = Running"
  proof (cases "snd (fst (start popen tf (ProcessHandler cmd)))")
    case None
    then show ?thesis using a process_start_unchanged [of popen tf cmd m] by simp
  next
    case (Some i)
    then show ?thesis using start_pid_success [of popen tf "ProcessHandler cmd" i]
      by (auto simp: prod_eq_iff)
  qed
next
  assume a: "cmd \<noteq> [] \<and> fst (start popen tf (ProcessHandler cmd)) = (S ''success'', Some i)"
  show "fst (process_start popen tf cmd m) = (S ''success'', Some i)"
    using a process_start_registered [of popen tf cmd i m] by simp
  show "map_of (processes (snd (process_start popen tf cmd m))) i
          = Some (snd (start popen tf (ProcessHandler cmd)))"
    using a process_start_registered [of popen tf cmd i m] by (simp add: update_conv')
qed

theorem start_failure_and_registration_witness:
  "process (ProcessHandler [S ''nope'']) = None \<and> command (ProcessHandler [S ''nope'']) \<noteq> []
   \<and> fst (start (File_not_found (S ''nope'')) None (ProcessHandler [S ''nope'']))
       = (S ''failed: Command not found: nope'', None)
   \<and> state (snd (start (File_not_found (S ''nope'')) None (ProcessHandler [S ''nope'']))) = Error
   \<and> state_log (snd (start (File_not_found (S ''nope'')) None (ProcessHandler [S ''nope''])))
       = [Error]
   \<and> process_start (File_not_found (S ''nope'')) None [S ''nope''] ProcessManager
       = ((S ''failed: Command not found: nope'', None), ProcessManager)
   \<and> processes example_manager \<noteq> processes ProcessManager
   \<and> fst (process_start (Spawned example_process) None [S ''sleep'', S ''10''] ProcessManager)
       = (S ''success'', Some 4242)
   \<and> map_of (processes example_manager) 4242 = Some running_session"
  using start_failure_and_registration
    [of "ProcessHandler [S ''nope'']" "File_not_found (S ''nope'')" None "S ''nope''"
        "[S ''nope'']" ProcessManager 0]
  by (simp add: example_defs eval_defs example_manager_def manager_defs spawn_failed_def)

section \<open>Killing every running session\<close>

text \<open>
  C7. With the keys of the registry distinct, as those of a dictionary are, \<open>all_kill\<close>
  calls \<open>kill\<close> on every session that is Running, in the order of the registry, and
  on no other: each Running session is left as its \<open>kill\<close> leaves it, whether the
  kills before it failed or not. The result is "success" exactly when no kill failed,
  and otherwise the single string "failed: " followed by one entry "PID i: ..." for
  every session whose kill failed, separated by "; ".
\<close>

theorem all_kill_every_running:
  assumes "distinct (map fst (processes m))"
  shows "processes (snd (all_kill n m)) = map (killed n) (processes m)
    \<and> map fst (drop (length (calls m)) (calls (snd (all_kill n m))))
        = map fst (filter (\<lambda>ih. state (snd ih) = Running) (processes m))
    \<and> fst (all_kill n m)
        = (if filter (kill_fails n) (processes m) = [] then S ''success''
           else S ''failed: '' @ join (S ''; '') (map (kill_error n) (filter (kill_fails n) (processes m))))
    \<and> (fst (all_kill n m) = S ''success'' \<longleftrightarrow> filter (kill_fails n) (processes m) = [])"
proof -
  define r where "r = all_kill_loop n (processes m) [] (m\<lparr>lock_depth := lock_depth m + 1\<rparr>)"
  have e: "fst r = map (kill_error n) (filter (kill_fails n) (processes m))"
    by (simp add: r_def all_kill_loop_errors)
  have p: "processes (snd r) = map (killed n) (processes m)"
    unfolding r_def
    using all_kill_loop_processes [of "[]" "processes m" "m\<lparr>lock_depth := lock_depth m + 1\<rparr>" n "[]"]
      assms by simp
  have c: "calls (snd r) = calls m @ map (\<lambda>ih. (fst ih, Op_kill, lock_depth m + 1))
             (filter (\<lambda>ih. state (snd ih) = Running) (processes m))"
    unfolding r_def
    using all_kill_loop_calls [of n "processes m" "[]" "m\<lparr>lock_depth := lock_depth m + 1\<rparr>"]
    by simp
  have ak: "all_kill n m = (if fst r \<noteq> [] then S ''failed: '' @ join (S ''; '') (fst r) else S ''success'',
                           (snd r)\<lparr>lock_depth := lock_depth (snd r) - 1\<rparr>)"
    unfolding r_def by (simp add: all_kill_def with_lock_def split: prod.splits)
  have ne: "S ''failed: '' @ x \<noteq> S ''success''" for x
    by (simp add: S_def)
  show ?thesis
    by (simp add: ak e p c ne comp_def)
qed

theorem all_kill_every_running_witness:
  "distinct (map fst (processes fleet_manager))
   \<and> map fst (processes fleet_manager) = [4243, 4242]
   \<and> map (\<lambda>ih. state (snd ih)) (processes fleet_manager) = [Running, Running]
   \<and> fst (all_kill 1 fleet_manager)
       = S ''failed: PID 4243: failed: Process did not terminate within timeout''
   \<and> map (\<lambda>ih. state (snd ih)) (processes (snd (all_kill 1 fleet_manager)))
       = [Running, Completed]
   \<and> map (\<lambda>ih. map_option kill_calls (process (snd ih))) (processes (snd (all_kill 1 fleet_manager)))
       = [Some 1, Some 1]"
proof -
  have p: "processes fleet_manager
             = [(4243, snd (start (Spawned stubborn_process) None (ProcessHandler [S ''sleep'', S ''99'']))),
                (4242, running_session)]"
    by (simp add: fleet_manager_def stubborn_process_def example_defs eval_defs manager_defs)
  have d: "distinct (map fst (processes fleet_manager))"
    by (simp add: p)
  show ?thesis
    using d all_kill_every_running [OF d, of 1]
    by (simp add: p killed_def kill_fails_def kill_error_def pid_error_def stubborn_process_def
        example_defs eval_defs str_int_def str_nat.simps)
qed

section \<open>Operations on an unknown process id\<close>

text \<open>
  C8. Each of the six operations that take a process id, called with an id that the
  registry does not hold, returns its not-found failure and leaves the manager, and so
  the registry, exactly as it was.
\<close>

theorem unknown_id_not_found:
  assumes "map_of (processes m) i = None"
  shows "process_status i m
           = (\<lparr>st_command = [], st_state = S ''error: Process not found'', last_five_lines = []\<rparr>, m)
    \<and> process_kill n i m = (S ''failed: Process not found'', m)
    \<and> stdio_send_line i line m = (S ''failed: Process not found'', m)
    \<and> stdio_send_chars i chars m = (S ''failed: Process not found'', m)
    \<and> stdio_get_lines i k m = ([S ''ERROR: Process not found: pid='' @ str_int i], m)
    \<and> stdio_search_lines lib i ty pat k m = ([S ''ERROR: Process not found: pid='' @ str_int i], m)"
  using assms
  by (simp add: process_status_def process_kill_def stdio_send_line_def stdio_send_chars_def
      stdio_get_lines_def stdio_search_lines_def with_lock_def not_found_lines_def)

theorem unknown_id_not_found_witness:
  "map_of (processes example_manager) 7 = None
   \<and> process_kill 1 7 example_manager = (S ''failed: Process not found'', example_manager)
   \<and> stdio_get_lines 7 5 example_manager
       = ([S ''ERROR: Process not found: pid=7''], example_manager)
   \<and> st_state (fst (process_status 7 example_manager)) = S ''error: Process not found''"
proof -
  have a: "map_of (processes example_manager) 7 = None"
    by (simp add: example_defs eval_defs example_manager_def manager_defs)
  show ?thesis
    using a unknown_id_not_found [OF a, of 1 "[]" "[]" 5 example_lib "S ''string''" None]
    by (simp add: S_def str_int_def str_nat.simps)
qed

section \<open>Failures of a search are lines\<close>

lemma all_search_loop_result:
  "fst (all_search_loop lib ty pat k ps result errors m)
     = (result @ hits (found lib ty pat k ps), errors @ failures (found lib ty pat k ps))"
proof (induction ps arbitrary: result errors m)
  case Nil
  then show ?case by (simp add: found_def hits_def failures_def)
next
  case (Cons a ps)
  obtain i h where a: "a = (i, h)" by (cases a)
  show ?case
    using Cons.IH
    by (simp add: a found_def hits_def failures_def Let_def)
qed

lemma all_search_result:
  assumes "valid_search_type ty" and "\<not> empty_pattern pat"
  shows "fst (all_search lib ty pat k m)
     = hits (found lib ty pat k (processes m))
       @ (if failures (found lib ty pat k (processes m)) = [] then []
          else [(- 1, [S ''ERROR: '' @ join (S ''; '') (failures (found lib ty pat k (processes m)))])])"
proof -
  define r where "r = all_search_loop lib ty pat k (processes m) [] [] (m\<lparr>lock_depth := lock_depth m + 1\<rparr>)"
  have f: "fst r = (hits (found lib ty pat k (processes m)), failures (found lib ty pat k (processes m)))"
    unfolding r_def by (simp add: all_search_loop_result)
  have "fst (all_search lib ty pat k m)
          = (if snd (fst r) \<noteq> [] then fst (fst r) @ [(- 1, [S ''ERROR: '' @ join (S ''; '') (snd (fst r))])]
             else fst (fst r))"
    unfolding r_def using assms by (simp add: all_search_def with_lock_def split: prod.splits)
  then show ?thesis by (simp add: f)
qed

lemma sublist_wildcard: "sublist (S ''wildcard'') (S ''ERROR: Empty wildcard pattern provided'')"
  by (simp add: S_def sublist_code)

lemma not_sublist_wildcard: "\<not> sublist (S ''wildcard'') (S ''starting up'' @ [10])"
  by (simp add: S_def sublist_code)

lemma genuine_error_line:
  shows "\<not> search_fails lib (S ''string'') (Some (S ''wildcard'')) (rbuffer error_line_session)"
    and "search_output lib (S ''string'') (Some (S ''wildcard'')) k error_line_session
           = [S ''ERROR: Empty wildcard pattern provided'']"
    and "filter (is_match lib (S ''string'') (Some (S ''wildcard''))) (buffer (rbuffer error_line_session))
           = [S ''ERROR: Empty wildcard pattern provided'']"
    and "search_output lib (S ''wildcard'') (Some []) k error_line_session
           = [S ''ERROR: Empty wildcard pattern provided'']"
    and "search_fails lib (S ''wildcard'') (Some []) (rbuffer error_line_session)"
proof -
  show "search_output lib (S ''string'') (Some (S ''wildcard'')) k error_line_session
             = [S ''ERROR: Empty wildcard pattern provided'']"
    by (simp add: search_output_def search_string_def error_line_session_buffer sublist_wildcard
        not_sublist_wildcard Let_def slice_from_def)
  show "filter (is_match lib (S ''string'') (Some (S ''wildcard''))) (buffer (rbuffer error_line_session))
             = [S ''ERROR: Empty wildcard pattern provided'']"
    by (simp add: is_match_string error_line_session_buffer sublist_wildcard not_sublist_wildcard)
  show "search_output lib (S ''wildcard'') (Some []) k error_line_session
             = [S ''ERROR: Empty wildcard pattern provided'']"
    by (simp add: search_output_def search_wildcard_def types_distinct)
  show "\<not> search_fails lib (S ''string'') (Some (S ''wildcard'')) (rbuffer error_line_session)"
    by (simp add: search_fails_def)
  show "search_fails lib (S ''wildcard'') (Some []) (rbuffer error_line_session)"
    by (simp add: search_fails_def types_distinct empty_pattern_def)
qed

lemma stdio_search_lines_result:
  "fst (stdio_search_lines lib i ty pat k m) =
     (case map_of (processes m) i of
        None \<Rightarrow> [S ''ERROR: Process not found: pid='' @ str_int i]
      | Some h1 \<Rightarrow>
          if \<not> valid_search_type ty then [invalid_search_type ty]
          else if empty_pattern pat then [S ''ERROR: Search pattern cannot be empty'']
          else search_output lib ty pat k h1)"
  by (simp add: stdio_search_lines_def with_lock_def not_found_lines_def split: option.splits)

lemma stdio_search_lines_rejects:
  assumes "map_of (processes m) i = None \<or> \<not> valid_search_type ty \<or> empty_pattern pat"
  shows "is_error_result (fst (stdio_search_lines lib i ty pat k m))"
  using assms
  by (auto simp: stdio_search_lines_result is_error_result_def invalid_search_type_def S_def
      split: option.splits)

lemma all_search_rejects:
  "\<not> valid_search_type ty \<Longrightarrow> fst (all_search lib ty pat k m) = [(- 1, [invalid_search_type ty])]"
  "valid_search_type ty \<Longrightarrow> empty_pattern pat \<Longrightarrow>
     fst (all_search lib ty pat k m) = [(- 1, [S ''ERROR: Search pattern cannot be empty''])]"
  by (simp_all add: all_search_def)

text \<open>
  C9. A search returns a list of lines whether it fails or not. At the session a search
  that fails returns a single entry that starts with "ERROR:", and one that does not
  fail returns the last \<open>k\<close> matching lines; \<open>stdio_search_lines\<close> returns the result
  of the session, or its own single entry that starts with "ERROR:" for an unknown id,
  an invalid type or an empty pattern, and \<open>all_search\<close> returns such an entry under
  the id -1 for an invalid type or an empty pattern. A result is classified as a failure
  exactly when it has a first entry and that entry starts with "ERROR:", so a search
  that does not fail is classified as one exactly when its first returned line starts
  so. \<open>all_search\<close> returns the results that are not so classified under their ids and
  gathers the first entry of every result that is into a single entry under the id -1;
  with one session whose result is so classified nothing but that entry is returned.
  The classification cannot tell a failure from lines: there is a session and a pattern
  for which the string search does not fail, returns exactly the matching lines (not
  the whole buffer), and returns the very list that the failing wildcard search returns.
\<close>

theorem search_errors_in_band:
  "(search_fails lib ty pat (rbuffer h) \<longrightarrow>
      (\<exists>e. search_output lib ty pat k h = [S ''ERROR:'' @ e])
      \<and> is_error_result (search_output lib ty pat k h))
   \<and> (\<not> search_fails lib ty pat (rbuffer h) \<longrightarrow>
        search_output lib ty pat k h
          = last_n k (filter (is_match lib ty pat) (buffer (rbuffer h)))
      \<and> (is_error_result (search_output lib ty pat k h) \<longleftrightarrow>
           (\<exists>line rest. last_n k (filter (is_match lib ty pat) (buffer (rbuffer h))) = line # rest
                        \<and> prefix (S ''ERROR:'') line)))
   \<and> fst (stdio_search_lines lib i ty pat k m) =
        (case map_of (processes m) i of
           None \<Rightarrow> [S ''ERROR: Process not found: pid='' @ str_int i]
         | Some h1 \<Rightarrow>
             if \<not> valid_search_type ty then [invalid_search_type ty]
             else if empty_pattern pat then [S ''ERROR: Search pattern cannot be empty'']
             else search_output lib ty pat k h1)
   \<and> (map_of (processes m) i = None \<or> \<not> valid_search_type ty \<or> empty_pattern pat \<longrightarrow>
        is_error_result (fst (stdio_search_lines lib i ty pat k m)))
   \<and> (\<not> valid_search_type ty \<longrightarrow>
        fst (all_search lib ty pat k m) = [(- 1, [invalid_search_type ty])])
   \<and> (valid_search_type ty \<and> empty_pattern pat \<longrightarrow>
        fst (all_search lib ty pat k m) = [(- 1, [S ''ERROR: Search pattern cannot be empty''])])
   \<and> (valid_search_type ty \<and> \<not> empty_pattern pat \<longrightarrow>
      fst (all_search lib ty pat k m)
        = hits (found lib ty pat k (processes m))
          @ (if failures (found lib ty pat k (processes m)) = [] then []
             else [(- 1, [S ''ERROR: '' @ join (S ''; '') (failures (found lib ty pat k (processes m)))])]))
   \<and> (valid_search_type ty \<and> \<not> empty_pattern pat \<and> processes m = [(i, h)]
       \<and> is_error_result (search_output lib ty pat k h) \<longrightarrow>
        fst (all_search lib ty pat k m)
          = [(- 1, [S ''ERROR: '' @ pid_error i (hd (search_output lib ty pat k h))])])
   \<and> (\<exists>h1 p. \<not> search_fails lib (S ''string'') (Some p) (rbuffer h1)
         \<and> search_output lib (S ''string'') (Some p) k h1
             = filter (is_match lib (S ''string'') (Some p)) (buffer (rbuffer h1))
         \<and> search_output lib (S ''string'') (Some p) k h1 \<noteq> []
         \<and> search_output lib (S ''string'') (Some p) k h1 \<noteq> buffer (rbuffer h1)
         \<and> is_error_result (search_output lib (S ''string'') (Some p) k h1)
         \<and> search_fails lib (S ''wildcard'') (Some []) (rbuffer h1)
         \<and> search_output lib (S ''string'') (Some p) k h1
             = search_output lib (S ''wildcard'') (Some []) k h1)"
proof (intro conjI impI)
  assume f: "search_fails lib ty pat (rbuffer h)"
  then obtain e where e: "search_output lib ty pat k h = [S ''ERROR:'' @ e]"
    using search_output_failure by blast
  show "\<exists>e. search_output lib ty pat k h = [S ''ERROR:'' @ e]"
    using e by blast
  show "is_error_result (search_output lib ty pat k h)"
    unfolding e by (rule is_error_result_ERROR)
next
  assume f: "\<not> search_fails lib ty pat (rbuffer h)"
  show o: "search_output lib ty pat k h
          = last_n k (filter (is_match lib ty pat) (buffer (rbuffer h)))"
    by (rule search_output_ok [OF f])
  show "is_error_result (search_output lib ty pat k h) \<longleftrightarrow>
           (\<exists>line rest. last_n k (filter (is_match lib ty pat) (buffer (rbuffer h))) = line # rest
                        \<and> prefix (S ''ERROR:'') line)"
    unfolding o by (rule is_error_result_Cons)
next
  show "fst (stdio_search_lines lib i ty pat k m) =
        (case map_of (processes m) i of
           None \<Rightarrow> [S ''ERROR: Process not found: pid='' @ str_int i]
         | Some h1 \<Rightarrow>
             if \<not> valid_search_type ty then [invalid_search_type ty]
             else if empty_pattern pat then [S ''ERROR: Search pattern cannot be empty'']
             else search_output lib ty pat k h1)"
    by (rule stdio_search_lines_result)
next
  assume "map_of (processes m) i = None \<or> \<not> valid_search_type ty \<or> empty_pattern pat"
  then show "is_error_result (fst (stdio_search_lines lib i ty pat k m))"
    by (rule stdio_search_lines_rejects)
next
  assume "\<not> valid_search_type ty"
  then show "fst (all_search lib ty pat k m) = [(- 1, [invalid_search_type ty])]"
    by (rule all_search_rejects(1))
next
  assume "valid_search_type ty \<and> empty_pattern pat"
  then show "fst (all_search lib ty pat k m) = [(- 1, [S ''ERROR: Search pattern cannot be empty''])]"
    using all_search_rejects(2) by blast
next
  assume "valid_search_type ty \<and> \<not> empty_pattern pat"
  then show "fst (all_search lib ty pat k m)
        = hits (found lib ty pat k (processes m))
          @ (if failures (found lib ty pat k (processes m)) = [] then []
             else [(- 1, [S ''ERROR: '' @ join (S ''; '') (failures (found lib ty pat k (processes m)))])])"
    using all_search_result by blast
next
  assume a: "valid_search_type ty \<and> \<not> empty_pattern pat \<and> processes m = [(i, h)]
       \<and> is_error_result (search_output lib ty pat k h)"
  then show "fst (all_search lib ty pat k m)
          = [(- 1, [S ''ERROR: '' @ pid_error i (hd (search_output lib ty pat k h))])]"
    using all_search_result [of ty pat lib k m]
    by (simp add: found_def hits_def failures_def)
next
  have e: "is_error_result [S ''ERROR: Empty wildcard pattern provided'']"
    by (simp add: is_error_result_def S_def)
  show "\<exists>h1 p. \<not> search_fails lib (S ''string'') (Some p) (rbuffer h1)
         \<and> search_output lib (S ''string'') (Some p) k h1
             = filter (is_match lib (S ''string'') (Some p)) (buffer (rbuffer h1))
         \<and> search_output lib (S ''string'') (Some p) k h1 \<noteq> []
         \<and> search_output lib (S ''string'') (Some p) k h1 \<noteq> buffer (rbuffer h1)
         \<and> is_error_result (search_output lib (S ''string'') (Some p) k h1)
         \<and> search_fails lib (S ''wildcard'') (Some []) (rbuffer h1)
         \<and> search_output lib (S ''string'') (Some p) k h1
             = search_output lib (S ''wildcard'') (Some []) k h1"
  proof (intro exI conjI)
    show "\<not> search_fails lib (S ''string'') (Some (S ''wildcard'')) (rbuffer error_line_session)"
      by (rule genuine_error_line(1))
    show "search_output lib (S ''string'') (Some (S ''wildcard'')) k error_line_session
            = filter (is_match lib (S ''string'') (Some (S ''wildcard'')))
                (buffer (rbuffer error_line_session))"
      by (simp only: genuine_error_line(2,3))
    show "search_output lib (S ''string'') (Some (S ''wildcard'')) k error_line_session \<noteq> []"
      by (simp add: genuine_error_line(2))
    show "search_output lib (S ''string'') (Some (S ''wildcard'')) k error_line_session
            \<noteq> buffer (rbuffer error_line_session)"
      by (simp add: genuine_error_line(2) error_line_session_buffer)
    show "is_error_result (search_output lib (S ''string'') (Some (S ''wildcard'')) k error_line_session)"
      using e by (simp only: genuine_error_line(2))
    show "search_fails lib (S ''wildcard'') (Some []) (rbuffer error_line_session)"
      by (rule genuine_error_line(5))
    show "search_output lib (S ''string'') (Some (S ''wildcard'')) k error_line_session
            = search_output lib (S ''wildcard'') (Some []) k error_line_session"
      by (simp only: genuine_error_line(2,4))
  qed
qed

theorem search_errors_in_band_witness:
  "valid_search_type (S ''string'') \<and> \<not> empty_pattern (Some (S ''wildcard''))
   \<and> processes error_line_manager = [(4242, error_line_session)]
   \<and> buffer (rbuffer error_line_session)
       = [S ''starting up'' @ [10], S ''ERROR: Empty wildcard pattern provided'']
   \<and> \<not> search_fails example_lib (S ''string'') (Some (S ''wildcard'')) (rbuffer error_line_session)
   \<and> search_output example_lib (S ''string'') (Some (S ''wildcard'')) 2 error_line_session
       = [S ''ERROR: Empty wildcard pattern provided'']
   \<and> is_error_result (search_output example_lib (S ''string'') (Some (S ''wildcard'')) 2 error_line_session)
   \<and> fst (stdio_search_lines example_lib 4242 (S ''string'') (Some (S ''wildcard'')) 2 error_line_manager)
       = [S ''ERROR: Empty wildcard pattern provided'']
   \<and> fst (all_search example_lib (S ''string'') (Some (S ''wildcard'')) 2 error_line_manager)
       = [(- 1, [S ''ERROR: PID 4242: ERROR: Empty wildcard pattern provided''])]
   \<and> search_fails example_lib (S ''regex'') (Some (S ''['')) (rbuffer error_line_session)
   \<and> is_error_result (search_output example_lib (S ''regex'') (Some (S ''['')) 2 error_line_session)
   \<and> is_error_result (fst (stdio_search_lines example_lib 7 (S ''string'') (Some (S ''wildcard'')) 2
                              error_line_manager))"
proof -
  note inst = search_errors_in_band [where lib = example_lib and k = 2 and m = error_line_manager
      and h = error_line_session]
  have a: "valid_search_type (S ''string'') \<and> \<not> empty_pattern (Some (S ''wildcard''))"
    by (simp add: valid_search_type_def empty_pattern_def S_def)
  have b: "processes error_line_manager = [(4242, error_line_session)]"
    by (simp add: error_line_manager_def put_handler_def ProcessManager_def)
  have b1: "map_of (processes error_line_manager) 4242 = Some error_line_session"
    "map_of (processes error_line_manager) 7 = None"
    by (simp_all add: b)
  have n: "\<not> search_fails example_lib (S ''string'') (Some (S ''wildcard'')) (rbuffer error_line_session)"
    by (rule genuine_error_line(1))
  have c: "search_output example_lib (S ''string'') (Some (S ''wildcard'')) 2 error_line_session
       = [S ''ERROR: Empty wildcard pattern provided'']"
    by (rule genuine_error_line(2))
  have d: "is_error_result [S ''ERROR: Empty wildcard pattern provided'']"
    by (simp add: is_error_result_def S_def)
  have e: "is_error_result
             (search_output example_lib (S ''string'') (Some (S ''wildcard'')) 2 error_line_session)"
    unfolding c by (rule d)
  have f: "fst (all_search example_lib (S ''string'') (Some (S ''wildcard'')) 2 error_line_manager)
       = [(- 1, [S ''ERROR: '' @ pid_error 4242
                   (hd (search_output example_lib (S ''string'') (Some (S ''wildcard'')) 2
                          error_line_session))])]"
    using a b e inst [where ty = "S ''string''" and pat = "Some (S ''wildcard'')" and i = 4242]
    by blast
  have g: "S ''ERROR: '' @ pid_error 4242 (hd [S ''ERROR: Empty wildcard pattern provided''])
             = S ''ERROR: PID 4242: ERROR: Empty wildcard pattern provided''"
    by (simp add: pid_error_def str_int_def str_nat.simps S_def)
  have h: "fst (all_search example_lib (S ''string'') (Some (S ''wildcard'')) 2 error_line_manager)
       = [(- 1, [S ''ERROR: PID 4242: ERROR: Empty wildcard pattern provided''])]"
    using f unfolding c g .
  have s0: "fst (stdio_search_lines example_lib 4242 (S ''string'') (Some (S ''wildcard'')) 2
                  error_line_manager)
       = (case map_of (processes error_line_manager) 4242 of
           None \<Rightarrow> [S ''ERROR: Process not found: pid='' @ str_int 4242]
         | Some h1 \<Rightarrow>
             if \<not> valid_search_type (S ''string'') then [invalid_search_type (S ''string'')]
             else if empty_pattern (Some (S ''wildcard''))
             then [S ''ERROR: Search pattern cannot be empty'']
             else search_output example_lib (S ''string'') (Some (S ''wildcard'')) 2 h1)"
    using inst [where ty = "S ''string''" and pat = "Some (S ''wildcard'')" and i = 4242]
    by blast
  have s: "fst (stdio_search_lines example_lib 4242 (S ''string'') (Some (S ''wildcard'')) 2
                  error_line_manager)
       = [S ''ERROR: Empty wildcard pattern provided'']"
    unfolding s0 using a by (simp add: b1 c)
  have r: "search_fails example_lib (S ''regex'') (Some (S ''['')) (rbuffer error_line_session)"
    by (simp add: search_fails_def types_distinct example_lib_def)
  have r1: "is_error_result (search_output example_lib (S ''regex'') (Some (S ''['')) 2 error_line_session)"
    using r inst [where ty = "S ''regex''" and pat = "Some (S ''['')" and i = 4242]
    by blast
  have u: "is_error_result (fst (stdio_search_lines example_lib 7 (S ''string'') (Some (S ''wildcard'')) 2
                              error_line_manager))"
    using b1(2) inst [where ty = "S ''string''" and pat = "Some (S ''wildcard'')" and i = 7]
    by blast
  show ?thesis
    using a b n c e s h r r1 u by (simp add: error_line_session_buffer)
qed

section \<open>The registry lock during a delegated call\<close>

lemma per_id_calls:
  assumes "map_of (processes m) i = Some h"
  shows "calls (snd (process_kill n i m)) = calls m @ [(i, Op_kill, lock_depth m + 1)]"
    and "calls (snd (process_status i m)) = calls m @ [(i, Op_get_status, lock_depth m + 1)]"
    and "calls (snd (stdio_send_line i line m)) = calls m @ [(i, Op_send_line, lock_depth m + 1)]"
    and "calls (snd (stdio_send_chars i chars m)) = calls m @ [(i, Op_send_chars, lock_depth m + 1)]"
    and "calls (snd (stdio_get_lines i k m)) = calls m @ [(i, Op_get_output_lines, lock_depth m + 1)]"
    and "valid_search_type ty \<and> \<not> empty_pattern pat \<Longrightarrow>
           calls (snd (stdio_search_lines lib i ty pat k m))
             = calls m @ [(i, Op_search_output, lock_depth m + 1)]"
  using assms
  by (simp_all add: process_kill_def process_status_def stdio_send_line_def stdio_send_chars_def
      stdio_get_lines_def stdio_search_lines_def with_lock_def put_handler_def note_call_def
      split: prod.splits)

lemma per_id_lock_released:
  "lock_depth (snd (process_kill n i m)) = lock_depth m"
  "lock_depth (snd (process_status i m)) = lock_depth m"
  "lock_depth (snd (stdio_send_line i line m)) = lock_depth m"
  "lock_depth (snd (stdio_send_chars i chars m)) = lock_depth m"
  "lock_depth (snd (stdio_get_lines i k m)) = lock_depth m"
  "lock_depth (snd (stdio_search_lines lib i ty pat k m)) = lock_depth m"
  by (simp_all add: process_kill_def process_status_def stdio_send_line_def stdio_send_chars_def
      stdio_get_lines_def stdio_search_lines_def with_lock_def put_handler_def note_call_def
      split: prod.splits option.splits)

lemma all_kill_calls:
  "calls (snd (all_kill n m))
     = calls m @ map (\<lambda>ih. (fst ih, Op_kill, lock_depth m + 1))
                   (filter (\<lambda>ih. state (snd ih) = Running) (processes m))
   \<and> lock_depth (snd (all_kill n m)) = lock_depth m"
proof -
  define r where "r = all_kill_loop n (processes m) [] (m\<lparr>lock_depth := lock_depth m + 1\<rparr>)"
  have c: "calls (snd r) = calls m @ map (\<lambda>ih. (fst ih, Op_kill, lock_depth m + 1))
             (filter (\<lambda>ih. state (snd ih) = Running) (processes m))
           \<and> lock_depth (snd r) = lock_depth m + 1"
    unfolding r_def
    using all_kill_loop_calls [of n "processes m" "[]" "m\<lparr>lock_depth := lock_depth m + 1\<rparr>"]
    by simp
  have "snd (all_kill n m) = (snd r)\<lparr>lock_depth := lock_depth (snd r) - 1\<rparr>"
    unfolding r_def by (simp add: all_kill_def with_lock_def split: prod.splits)
  then show ?thesis using c by simp
qed

text \<open>
  C10, as stated, fails. The claim: the registry lock is never held while the delegated
  session operation runs. In the source the call into the handler stands inside the
  \<open>with self.lock\<close> block of every operation: \<open>process_kill\<close> on the registered
  \<open>sleep\<close> enters \<open>kill\<close>, which polls for the exit, while the lock is held once.
\<close>

theorem process_kill_holds_lock:
  "lock_depth example_manager = 0
   \<and> calls example_manager = []
   \<and> calls (snd (process_kill 1 4242 example_manager)) = [(4242, Op_kill, 1)]"
  by (simp add: example_manager_def example_defs eval_defs manager_defs process_kill_def)

text \<open>
  C10, amended. For a registered id, each of the six operations that take a process id
  makes its one call into the session while the calling thread holds the registry lock
  (one level deeper than on entry), and \<open>all_kill\<close> makes every one of its kills so;
  the lock is back at its entry depth when the operation returns. The lock serialises
  whole operations, not only changes of membership.
\<close>

theorem registry_lock_held_during_calls:
  assumes "map_of (processes m) i = Some h"
  shows "calls (snd (process_kill n i m)) = calls m @ [(i, Op_kill, lock_depth m + 1)]
    \<and> calls (snd (process_status i m)) = calls m @ [(i, Op_get_status, lock_depth m + 1)]
    \<and> calls (snd (stdio_send_line i line m)) = calls m @ [(i, Op_send_line, lock_depth m + 1)]
    \<and> calls (snd (stdio_send_chars i chars m)) = calls m @ [(i, Op_send_chars, lock_depth m + 1)]
    \<and> calls (snd (stdio_get_lines i k m)) = calls m @ [(i, Op_get_output_lines, lock_depth m + 1)]
    \<and> (valid_search_type ty \<and> \<not> empty_pattern pat \<longrightarrow>
          calls (snd (stdio_search_lines lib i ty pat k m))
            = calls m @ [(i, Op_search_output, lock_depth m + 1)])
    \<and> calls (snd (all_kill n m))
        = calls m @ map (\<lambda>ih. (fst ih, Op_kill, lock_depth m + 1))
                      (filter (\<lambda>ih. state (snd ih) = Running) (processes m))
    \<and> lock_depth (snd (process_kill n i m)) = lock_depth m
    \<and> lock_depth (snd (process_status i m)) = lock_depth m
    \<and> lock_depth (snd (stdio_send_line i line m)) = lock_depth m
    \<and> lock_depth (snd (stdio_send_chars i chars m)) = lock_depth m
    \<and> lock_depth (snd (stdio_get_lines i k m)) = lock_depth m
    \<and> lock_depth (snd (stdio_search_lines lib i ty pat k m)) = lock_depth m
    \<and> lock_depth (snd (all_kill n m)) = lock_depth m"
  by (simp add: per_id_calls [OF assms] per_id_lock_released all_kill_calls)

theorem registry_lock_held_during_calls_witness:
  "map_of (processes example_manager) 4242 = Some running_session
   \<and> calls (snd (process_status 4242 example_manager)) = [(4242, Op_get_status, 1)]
   \<and> calls (snd (all_kill 1 example_manager)) = [(4242, Op_kill, 1)]
   \<and> lock_depth (snd (process_kill 1 4242 example_manager)) = 0"
proof -
  have a: "map_of (processes example_manager) 4242 = Some running_session"
    by (simp add: example_manager_def example_defs eval_defs manager_defs)
  have b: "processes example_manager = [(4242, running_session)]"
    by (simp add: example_manager_def example_defs eval_defs manager_defs)
  have c: "state running_session = Running"
    by (simp add: example_defs eval_defs)
  have d: "lock_depth example_manager = 0 \<and> calls example_manager = []"
    by (simp add: example_manager_def example_defs eval_defs manager_defs)
  show ?thesis
    using a registry_lock_held_during_calls [OF a, of 1 "[]" "[]" 0 "S ''string''" None example_lib]
    by (simp add: b c d)
qed

end
